theory Spec2Isabelle
  imports Complex_Main "HOL-Library.Sublist"
begin

section \<open>Strings, numbers and formatting\<close>

text \<open>
  Python strings are modelled as \<^typ>\<open>string\<close>, holding the UTF-8 bytes of the text. Every
  delimiter the program looks for is ASCII, and an ASCII byte never occurs inside a multi-byte
  UTF-8 sequence, so searching bytes agrees with searching code points. The white space that
  \<^verbatim>\<open>str.strip\<close> removes has members outside ASCII; they are matched by their byte
  sequences, which start and end a character wherever they start or end a text. The Chinese
  literals of the source are given by their bytes.
\<close>

definition fullwidth_colon :: string where
  "fullwidth_colon = [CHR 0xEF, CHR 0xBC, CHR 0x9A]"

definition txt_attempt :: string where
  \<comment> \<open>the word for an attempt in the retry warnings\<close>
  "txt_attempt = [CHR 0xE5, CHR 0xB0, CHR 0x9D, CHR 0xE8, CHR 0xAF, CHR 0x95]"

definition txt_request_error :: string where
  "txt_request_error = [CHR 0xE8, CHR 0xAF, CHR 0xB7, CHR 0xE6, CHR 0xB1, CHR 0x82,
     CHR 0xE5, CHR 0xBC, CHR 0x82, CHR 0xE5, CHR 0xB8, CHR 0xB8] @ fullwidth_colon"

definition digit_char :: "nat \<Rightarrow> char" where
  "digit_char n = ''0123456789'' ! n"

fun str_nat :: "nat \<Rightarrow> string" where
  "str_nat n = (if n < 10 then [digit_char n] else str_nat (n div 10) @ [digit_char (n mod 10)])"

declare str_nat.simps [simp del]

definition str_int :: "int \<Rightarrow> string" where
  \<comment> \<open>Python's \<^verbatim>\<open>str\<close> of an int, as an f-string inserts it\<close>
  "str_int i = (if i < 0 then CHR ''-'' # str_nat (nat (- i)) else str_nat (nat i))"

definition startswith :: "string \<Rightarrow> string \<Rightarrow> bool" where
  "startswith s p = (take (length p) s = p)"

section \<open>The outside world\<close>

text \<open>
  The program talks to a web server, sleeps, prints and writes files. The model threads a
  \<open>world\<close> through every call: the trace of events so far and the file system. The HTTP
  client is a pair of functions that answer a request from the trace so far, so that any
  deterministic server (one that fails twice and then answers, say) is a client of the model
  and the number of requests sent is read off the trace.
\<close>

text \<open>
  A page request is answered (\<open>Response\<close>), fails with an \<^verbatim>\<open>httpx.HTTPError\<close> (the
  class the program catches, carrying the exception's text) or raises an exception of another
  class (\<open>Raised\<close>). A streamed download fails before its body arrives (a transport error
  or the status check, \<open>StreamError\<close>; another exception, \<open>StreamRaised\<close>), or it delivers
  chunks and then ends, fails or raises.
\<close>

type_synonym headers = "(string \<times> string) list"

type_synonym path = "string list"

datatype event =
    Get string headers
  | Stream string headers
  | Sleep real
  | Print string

datatype entry = Dir | File string

record world =
  trace :: "event list"
  fs :: "(path \<times> entry) list"

datatype exn = NameError | TypeError | AssertionError | OtherException string

datatype get_outcome =
    Response int string
  | HTTPError string
  | Raised string

datatype stream_end = EndOfStream | BodyError string | BodyRaised string

datatype stream_outcome =
    StreamError string
  | StreamRaised string
  | StreamBody "string list" stream_end

record client =
  on_get :: "event list \<Rightarrow> string \<Rightarrow> headers \<Rightarrow> get_outcome"
  on_stream :: "event list \<Rightarrow> string \<Rightarrow> headers \<Rightarrow> stream_outcome"

definition emit :: "event \<Rightarrow> world \<Rightarrow> world" where
  "emit e w = w\<lparr>trace := trace w @ [e]\<rparr>"

definition is_get :: "event \<Rightarrow> bool" where
  "is_get e = (case e of Get _ _ \<Rightarrow> True | _ \<Rightarrow> False)"

definition gets_of :: "world \<Rightarrow> event list" where
  \<comment> \<open>the page requests sent so far\<close>
  "gets_of w = filter is_get (trace w)"

text \<open>
  A parsed page is a tree of elements and text; a decoded JSON document is a Python value.
  JSON numbers are modelled by the integers: the program reads a number only for its truth
  value.
\<close>

datatype node =
    Element string "(string \<times> string) list" "node list"
  | Text string

datatype pyval =
    PNone
  | PBool bool
  | PInt int
  | PStr string
  | PList "pyval list"
  | PDict "(string \<times> pyval) list"

text \<open>
  Library functions the program calls and does not define are parameters of the model:
  \<^item> \<open>url_suffix u\<close> is \<^verbatim>\<open>Path(urlparse(u).path).suffix\<close> and \<open>url_name u\<close> is
    \<^verbatim>\<open>Path(urlparse(u).path).name\<close>;
  \<^item> \<open>urljoin\<close> is \<^verbatim>\<open>urllib.parse.urljoin\<close>;
  \<^item> \<open>relpath_posix p d\<close> is \<^verbatim>\<open>Path(os.path.relpath(p, d)).as_posix()\<close>;
  \<^item> \<open>fromstring\<close> and \<open>tostring\<close> are lxml's parser and serialiser;
  \<^item> \<open>json_loads\<close> is \<^verbatim>\<open>json.loads\<close>, \<open>None\<close> standing for a \<^verbatim>\<open>JSONDecodeError\<close>;
  \<^item> \<open>py_str\<close> is the text an f-string inserts for a value;
  \<^item> \<open>str_lower\<close> is \<^verbatim>\<open>str.lower\<close>.
\<close>

record library =
  url_suffix :: "string \<Rightarrow> string"
  url_name :: "string \<Rightarrow> string"
  urljoin :: "string \<Rightarrow> string \<Rightarrow> string"
  relpath_posix :: "path \<Rightarrow> path \<Rightarrow> string"
  fromstring :: "string \<Rightarrow> node"
  tostring :: "node \<Rightarrow> string"
  json_loads :: "string \<Rightarrow> pyval option"
  py_str :: "pyval \<Rightarrow> string"
  str_lower :: "string \<Rightarrow> string"

section \<open>Fetcher\<close>

definition BASE_HEADERS :: headers where
  "BASE_HEADERS = [(''User-Agent'',
     ''Mozilla/5.0 (Windows NT 10.0; Win64; x64) '' @
     ''AppleWebKit/537.36 (KHTML, like Gecko) Chrome/120.0 Safari/537.36'')]"

definition build_headers :: "library \<Rightarrow> string \<Rightarrow> headers" where
  "build_headers L language_code =
     (if startswith (str_lower L language_code) ''zh''
      then BASE_HEADERS @ [(''Accept-Language'', ''zh-CN,zh;q=0.9,en;q=0.6'')]
      else BASE_HEADERS @ [(''Accept-Language'', ''en-US,en;q=0.8'')])"

definition attempt_suffix :: "int \<Rightarrow> int \<Rightarrow> string" where
  "attempt_suffix attempt max_retries =
     '' ('' @ txt_attempt @ '' '' @ str_int attempt @ ''/'' @ str_int max_retries @ '')''"

definition status_warning :: "int \<Rightarrow> string \<Rightarrow> int \<Rightarrow> int \<Rightarrow> string" where
  "status_warning status url attempt max_retries =
     ''HTTP '' @ str_int status @ fullwidth_colon @ url @ attempt_suffix attempt max_retries"

definition exception_warning :: "string \<Rightarrow> int \<Rightarrow> int \<Rightarrow> string" where
  "exception_warning exc attempt max_retries =
     txt_request_error @ exc @ attempt_suffix attempt max_retries"

text \<open>
  The loop of \<^verbatim>\<open>fetch_html\<close> over \<^verbatim>\<open>range(1, max_retries + 1)\<close>. An answer with
  status 200 and a non-empty body returns at once; any other answer and an
  \<^verbatim>\<open>httpx.HTTPError\<close> append a warning and sleep; an exception of another class is not
  caught and leaves the function.
\<close>

fun fetch_attempts ::
  "client \<Rightarrow> string \<Rightarrow> headers \<Rightarrow> int \<Rightarrow> real \<Rightarrow> int list \<Rightarrow> world \<Rightarrow> string list
     \<Rightarrow> world \<times> (exn + string option \<times> string list)" where
  "fetch_attempts c url hs max_retries sleep_seconds [] w warnings = (w, Inr (None, warnings))"
| "fetch_attempts c url hs max_retries sleep_seconds (attempt # rest) w warnings =
     (case on_get c (trace w) url hs of
        Response status_code text \<Rightarrow>
          if status_code = 200 \<and> text \<noteq> []
          then (emit (Get url hs) w, Inr (Some text, warnings))
          else fetch_attempts c url hs max_retries sleep_seconds rest
                 (emit (Sleep sleep_seconds) (emit (Get url hs) w))
                 (warnings @ [status_warning status_code url attempt max_retries])
      | HTTPError exc \<Rightarrow>
          fetch_attempts c url hs max_retries sleep_seconds rest
            (emit (Sleep sleep_seconds) (emit (Get url hs) w))
            (warnings @ [exception_warning exc attempt max_retries])
      | Raised e \<Rightarrow> (emit (Get url hs) w, Inl (OtherException e)))"

definition fetch_html ::
  "library \<Rightarrow> client \<Rightarrow> string \<Rightarrow> string \<Rightarrow> int \<Rightarrow> real \<Rightarrow> world
     \<Rightarrow> world \<times> (exn + string option \<times> string list)" where
  "fetch_html L c url language_code max_retries sleep_seconds w =
     fetch_attempts c url (build_headers L language_code) max_retries sleep_seconds
       [1..max_retries] w []"

definition failed_attempt :: "get_outcome \<Rightarrow> bool" where
  \<comment> \<open>a failure the retry loop handles: a status other than 200, an empty body, a transport error\<close>
  "failed_attempt out =
     (case out of
        Response status_code text \<Rightarrow> status_code \<noteq> 200 \<or> text = []
      | HTTPError _ \<Rightarrow> True
      | Raised _ \<Rightarrow> False)"

definition attempt_warning :: "get_outcome \<Rightarrow> string \<Rightarrow> int \<Rightarrow> int \<Rightarrow> string" where
  "attempt_warning out url attempt max_retries =
     (case out of
        Response status_code _ \<Rightarrow> status_warning status_code url attempt max_retries
      | HTTPError exc \<Rightarrow> exception_warning exc attempt max_retries
      | Raised _ \<Rightarrow> [])"

definition is_response :: "get_outcome \<Rightarrow> bool" where
  "is_response out = (case out of Response _ _ \<Rightarrow> True | _ \<Rightarrow> False)"

fun attempt_outcomes ::
  "client \<Rightarrow> string \<Rightarrow> headers \<Rightarrow> real \<Rightarrow> event list \<Rightarrow> nat \<Rightarrow> get_outcome list" where
  \<comment> \<open>what the transport answers to n requests in a row, each followed by a sleep\<close>
  "attempt_outcomes c url hs sleep_seconds t 0 = []"
| "attempt_outcomes c url hs sleep_seconds t (Suc n) =
     on_get c t url hs
       # attempt_outcomes c url hs sleep_seconds (t @ [Get url hs, Sleep sleep_seconds]) n"

section \<open>File names\<close>

definition unsafe_char :: "char \<Rightarrow> bool" where
  \<comment> \<open>the characters of the class in \<^verbatim>\<open>sanitize_filename\<close>: backslash, double quote
      and \<^verbatim>\<open>/ : * ? < > |\<close>\<close>
  "unsafe_char c = (c \<in> set ([CHR 0x5C, CHR 0x22] @ ''/:*?<>|''))"

function collapse_unsafe :: "string \<Rightarrow> string" where
  \<comment> \<open>the \<^verbatim>\<open>re.sub\<close> of line 113: every maximal run of such characters becomes one
      underscore\<close>
  "collapse_unsafe [] = []"
| "collapse_unsafe (c # cs) =
     (if unsafe_char c then CHR ''_'' # collapse_unsafe (dropWhile unsafe_char cs)
      else c # collapse_unsafe cs)"
  by pat_completeness auto
termination
  by (relation "measure length") (auto simp: less_Suc_eq_le length_dropWhile_le)

definition whitespace :: "string list" where
  \<comment> \<open>the characters \<^verbatim>\<open>str.strip\<close> removes, each in UTF-8: U+0009 to U+000D, U+001C to
      U+0020, U+0085, U+00A0, U+1680, U+2000 to U+200A, U+2028, U+2029, U+202F, U+205F and
      U+3000\<close>
  "whitespace =
     map (\<lambda>c. [c]) [CHR 0x09, CHR 0x0A, CHR 0x0B, CHR 0x0C, CHR 0x0D,
                    CHR 0x1C, CHR 0x1D, CHR 0x1E, CHR 0x1F, CHR 0x20]
     @ [[CHR 0xC2, CHR 0x85], [CHR 0xC2, CHR 0xA0], [CHR 0xE1, CHR 0x9A, CHR 0x80]]
     @ map (\<lambda>c. [CHR 0xE2, CHR 0x80, c])
         [CHR 0x80, CHR 0x81, CHR 0x82, CHR 0x83, CHR 0x84, CHR 0x85, CHR 0x86, CHR 0x87,
          CHR 0x88, CHR 0x89, CHR 0x8A, CHR 0xA8, CHR 0xA9, CHR 0xAF]
     @ [[CHR 0xE2, CHR 0x81, CHR 0x9F], [CHR 0xE3, CHR 0x80, CHR 0x80]]"

function drop_leading :: "string list \<Rightarrow> string \<Rightarrow> string" where
  \<comment> \<open>the text behind every leading occurrence of one of the given sequences\<close>
  "drop_leading seqs s =
     (case find (\<lambda>p. p \<noteq> [] \<and> startswith s p) seqs of
        None \<Rightarrow> s
      | Some p \<Rightarrow> drop_leading seqs (drop (length p) s))"
  by pat_completeness auto
termination
proof (relation "measure (\<lambda>(seqs, s). length s)")
  show "wf (measure (\<lambda>(seqs, s). length s))"
    by simp
next
  fix seqs :: "string list" and s p :: string
  assume "find (\<lambda>p. p \<noteq> [] \<and> startswith s p) seqs = Some p"
  then have "p \<noteq> []" and "take (length p) s = p"
    by (auto simp: find_Some_iff startswith_def)
  then have "s \<noteq> []" and "0 < length p"
    by auto
  then show "((seqs, drop (length p) s), (seqs, s)) \<in> measure (\<lambda>(seqs, s). length s)"
    by simp
qed

declare drop_leading.simps [simp del]

definition strip :: "string \<Rightarrow> string" where
  \<comment> \<open>\<^verbatim>\<open>str.strip\<close>: the white space at both ends is removed; at the end of the text a
      character is found by its bytes in reverse\<close>
  "strip s = rev (drop_leading (map rev whitespace) (rev (drop_leading whitespace s)))"

definition sanitize_filename :: "string \<Rightarrow> string \<Rightarrow> string" where
  "sanitize_filename name fallback =
     (let cleaned = strip (collapse_unsafe name) in if cleaned = [] then fallback else cleaned)"

definition derive_slug :: "library \<Rightarrow> string \<Rightarrow> string" where
  "derive_slug L source_url = sanitize_filename (url_name L source_url) ''untitled''"

definition fmt_02d :: "int \<Rightarrow> string" where
  \<comment> \<open>the format \<^verbatim>\<open>{index:02d}\<close>\<close>
  "fmt_02d i = (let s = str_int i in replicate (2 - length s) (CHR ''0'') @ s)"

section \<open>Asset manager\<close>

text \<open>
  The file system is an association list from paths to entries, read with \<^const>\<open>map_of\<close>;
  a path is the list of its components. The file-system calls of the program are taken to
  succeed.
\<close>

definition path_exists :: "(path \<times> entry) list \<Rightarrow> path \<Rightarrow> bool" where
  "path_exists files p = (map_of files p \<noteq> None)"

definition mkdir_parents :: "path \<Rightarrow> world \<Rightarrow> world" where
  \<comment> \<open>\<^verbatim>\<open>mkdir(parents=True, exist_ok=True)\<close>: the directory and its missing ancestors\<close>
  "mkdir_parents p w =
     w\<lparr>fs := fold (\<lambda>q files. if path_exists files q then files else files @ [(q, Dir)])
                  (tl (prefixes p)) (fs w)\<rparr>"

definition write_file :: "path \<Rightarrow> string \<Rightarrow> world \<Rightarrow> world" where
  "write_file p content w = w\<lparr>fs := (p, File content) # fs w\<rparr>"

record asset_manager =
  base_dir :: path
  cache :: "string \<rightharpoonup> (string \<rightharpoonup> path)"

definition cache_lookup :: "asset_manager \<Rightarrow> string \<Rightarrow> string \<Rightarrow> path option" where
  \<comment> \<open>the cache read as a mapping from (article, URL) pairs to paths\<close>
  "cache_lookup am slug remote_url =
     (case cache am slug of None \<Rightarrow> None | Some slug_cache \<Rightarrow> slug_cache remote_url)"

definition setdefault :: "('k \<rightharpoonup> ('a \<rightharpoonup> 'b)) \<Rightarrow> 'k \<Rightarrow> ('k \<rightharpoonup> ('a \<rightharpoonup> 'b))" where
  \<comment> \<open>\<^verbatim>\<open>d.setdefault(k, {})\<close>, as the dictionary it leaves\<close>
  "setdefault d k = (case d k of None \<Rightarrow> d(k \<mapsto> Map.empty) | Some _ \<Rightarrow> d)"

definition numbered_name :: "path \<Rightarrow> string \<Rightarrow> string \<Rightarrow> nat \<Rightarrow> path" where
  "numbered_name slug_dir stem ext n = slug_dir @ [stem @ ''_'' @ str_nat n @ ext]"

lemma digit_char_inj: "n < 10 \<Longrightarrow> m < 10 \<Longrightarrow> digit_char n = digit_char m \<Longrightarrow> n = m"
  unfolding digit_char_def
  by (simp add: less_Suc_eq numeral_eq_Suc nth_Cons' split: if_splits)

lemma str_nat_nonempty: "str_nat n \<noteq> []"
  by (subst str_nat.simps) simp

lemma str_nat_inj: "str_nat n = str_nat m \<Longrightarrow> n = m"
proof (induction n arbitrary: m rule: str_nat.induct)
  case (1 n)
  show ?case
  proof (cases "n < 10")
    case True
    then have n: "str_nat n = [digit_char n]" by (subst str_nat.simps) simp
    show ?thesis
    proof (cases "m < 10")
      case True
      then have "str_nat m = [digit_char m]" by (subst str_nat.simps) simp
      with n "1.prems" \<open>n < 10\<close> True show ?thesis by (simp add: digit_char_inj)
    next
      case False
      then have "str_nat m = str_nat (m div 10) @ [digit_char (m mod 10)]"
        by (subst str_nat.simps) simp
      with n "1.prems" str_nat_nonempty[of "m div 10"] show ?thesis by simp
    qed
  next
    case False
    then have n: "str_nat n = str_nat (n div 10) @ [digit_char (n mod 10)]"
      by (subst str_nat.simps) simp
    show ?thesis
    proof (cases "m < 10")
      case True
      then have "str_nat m = [digit_char m]" by (subst str_nat.simps) simp
      with n "1.prems" str_nat_nonempty[of "n div 10"] show ?thesis by simp
    next
      case m: False
      then have "str_nat m = str_nat (m div 10) @ [digit_char (m mod 10)]"
        by (subst str_nat.simps) simp
      with n "1.prems" have e: "str_nat (n div 10) = str_nat (m div 10)"
        and d: "digit_char (n mod 10) = digit_char (m mod 10)" by simp_all
      from "1.IH"[OF False e] have "n div 10 = m div 10" .
      moreover from d have "n mod 10 = m mod 10" by (simp add: digit_char_inj)
      ultimately show ?thesis by (metis div_mult_mod_eq)
    qed
  qed
qed

lemma numbered_name_inj:
  "numbered_name d s e n = numbered_name d s e m \<Longrightarrow> n = m"
  by (simp add: numbered_name_def str_nat_inj)

lemma finite_numbered:
  "finite {n. k \<le> n \<and> numbered_name d s e n \<in> fst ` set files}"
proof -
  have "finite (numbered_name d s e -` (fst ` set files))"
    by (rule finite_vimageI) (auto simp: inj_on_def dest: numbered_name_inj)
  then show ?thesis
    by (rule rev_finite_subset) auto
qed

lemma path_exists_iff: "path_exists files p \<longleftrightarrow> p \<in> fst ` set files"
  by (simp add: path_exists_def map_of_eq_None_iff)

text \<open>The loop \<^verbatim>\<open>while candidate.exists()\<close> of \<^verbatim>\<open>ensure_download\<close>.\<close>

function free_candidate ::
  "(path \<times> entry) list \<Rightarrow> path \<Rightarrow> string \<Rightarrow> string \<Rightarrow> path \<Rightarrow> nat \<Rightarrow> path" where
  "free_candidate files slug_dir stem ext candidate suffix_counter =
     (if path_exists files candidate
      then free_candidate files slug_dir stem ext
             (numbered_name slug_dir stem ext suffix_counter) (Suc suffix_counter)
      else candidate)"
  by pat_completeness auto
termination
proof (relation "measure (\<lambda>(files, slug_dir, stem, ext, candidate, k).
    2 * card {n. k \<le> n \<and> numbered_name slug_dir stem ext n \<in> fst ` set files}
    + (if path_exists files candidate then 1 else 0))", goal_cases)
  case 1
  show ?case by simp
next
  case (2 files slug_dir stem ext candidate k)
  let ?S = "\<lambda>k. {n. k \<le> n \<and> numbered_name slug_dir stem ext n \<in> fst ` set files}"
  show ?case
  proof (cases "path_exists files (numbered_name slug_dir stem ext k)")
    case True
    then have mem: "k \<in> ?S k" by (simp add: path_exists_iff)
    have eq: "?S (Suc k) = ?S k - {k}" by auto
    have "card (?S k - {k}) < card (?S k)"
      by (rule card_Diff1_less[OF finite_numbered mem])
    then have "card (?S (Suc k)) < card (?S k)"
      by (simp only: eq)
    then show ?thesis using 2 True by simp
  next
    case False
    then have "?S (Suc k) = ?S k"
      by (auto simp: path_exists_iff Suc_le_eq le_less)
    then show ?thesis using 2 False by simp
  qed
qed

declare free_candidate.simps [simp del]

lemma free_candidate_free: "\<not> path_exists files (free_candidate files d s e c k)"
  by (induction files d s e c k rule: free_candidate.induct)
     (subst free_candidate.simps, simp)

definition txt_download_failed :: string where
  "txt_download_failed = [CHR 0xE5, CHR 0x9B, CHR 0xBE, CHR 0xE7, CHR 0x89, CHR 0x87,
     CHR 0xE4, CHR 0xB8, CHR 0x8B, CHR 0xE8, CHR 0xBD, CHR 0xBD, CHR 0xE5, CHR 0xA4, CHR 0xB1,
     CHR 0xE8, CHR 0xB4, CHR 0xA5] @ fullwidth_colon"

definition download_warning :: "string \<Rightarrow> string \<Rightarrow> string" where
  "download_warning remote_url exc = txt_download_failed @ remote_url @ '' -> '' @ exc"

definition base_name :: "path \<Rightarrow> string \<Rightarrow> string \<Rightarrow> path" where
  "base_name slug_dir stem ext = slug_dir @ [stem @ ext]"

definition derived_ext :: "library \<Rightarrow> string \<Rightarrow> string" where
  \<comment> \<open>line 317\<close>
  "derived_ext L remote_url =
     (if url_suffix L remote_url = [] then ''.jpg'' else url_suffix L remote_url)"

definition derived_stem :: "string \<Rightarrow> int \<Rightarrow> string" where
  \<comment> \<open>lines 318 and 319: the two-digit index, an underscore and the sanitised alt text\<close>
  "derived_stem alt_text index =
     fmt_02d index @ ''_'' @ sanitize_filename alt_text (''image-'' @ fmt_02d index)"

definition select_candidate ::
  "library \<Rightarrow> (path \<times> entry) list \<Rightarrow> path \<Rightarrow> string \<Rightarrow> string \<Rightarrow> int \<Rightarrow> path" where
  \<comment> \<open>lines 316 to 323: the derived name, made free by the loop\<close>
  "select_candidate L files slug_dir remote_url alt_text index =
     free_candidate files slug_dir (derived_stem alt_text index) (derived_ext L remote_url)
       (base_name slug_dir (derived_stem alt_text index) (derived_ext L remote_url)) 1"

definition nth_candidate :: "path \<Rightarrow> string \<Rightarrow> string \<Rightarrow> nat \<Rightarrow> path" where
  \<comment> \<open>the names the loop tries, in order: the derived name, then the suffixes 1, 2, ...\<close>
  "nth_candidate slug_dir stem ext k =
     (if k = 0 then base_name slug_dir stem ext else numbered_name slug_dir stem ext k)"

definition ensure_download ::
  "library \<Rightarrow> client \<Rightarrow> asset_manager \<Rightarrow> world \<Rightarrow> string \<Rightarrow> string \<Rightarrow> string \<Rightarrow> int
     \<Rightarrow> world \<times> asset_manager \<times> (exn + path option \<times> string option)" where
  "ensure_download L c am w slug remote_url alt_text index =
     (let cache1 = setdefault (cache am) slug;
          am1 = am\<lparr>cache := cache1\<rparr>;
          slug_cache = (case cache1 slug of Some m \<Rightarrow> m | None \<Rightarrow> Map.empty)
      in case slug_cache remote_url of
           Some p \<Rightarrow> (w, am1, Inr (Some p, None))
         | None \<Rightarrow>
            (let slug_dir = base_dir am @ [slug];
                 w1 = mkdir_parents slug_dir w;
                 candidate = select_candidate L (fs w1) slug_dir remote_url alt_text index;
                 w2 = emit (Stream remote_url BASE_HEADERS) w1
             in case on_stream c (trace w1) remote_url BASE_HEADERS of
                  StreamError exc \<Rightarrow>
                    (w2, am1, Inr (None, Some (download_warning remote_url exc)))
                | StreamRaised e \<Rightarrow> (w2, am1, Inl (OtherException e))
                | StreamBody chunks ending \<Rightarrow>
                    (case ending of
                       EndOfStream \<Rightarrow>
                         (write_file candidate (concat chunks) w2,
                          am1\<lparr>cache := cache1(slug \<mapsto> slug_cache(remote_url \<mapsto> candidate))\<rparr>,
                          Inr (Some candidate, None))
                     | BodyError exc \<Rightarrow>
                         (write_file candidate (concat chunks) w2, am1,
                          Inr (None, Some (download_warning remote_url exc)))
                     | BodyRaised e \<Rightarrow>
                         (write_file candidate (concat chunks) w2, am1,
                          Inl (OtherException e)))))"

inductive later_manager :: "library \<Rightarrow> client \<Rightarrow> asset_manager \<Rightarrow> asset_manager \<Rightarrow> bool" where
  \<comment> \<open>the manager after any number of further calls of \<^verbatim>\<open>ensure_download\<close>\<close>
  same: "later_manager L c am am"
| call: "later_manager L c am am1 \<Longrightarrow>
         ensure_download L c am1 w slug remote_url alt_text index = (w', am2, r) \<Longrightarrow>
         later_manager L c am am2"

definition download_fails :: "stream_outcome \<Rightarrow> string \<Rightarrow> bool" where
  \<comment> \<open>the download ends in an \<^verbatim>\<open>httpx.HTTPError\<close> with text \<open>exc\<close>\<close>
  "download_fails out exc =
     (case out of
        StreamError e \<Rightarrow> e = exc
      | StreamRaised _ \<Rightarrow> False
      | StreamBody _ ending \<Rightarrow>
          (case ending of BodyError e \<Rightarrow> e = exc | _ \<Rightarrow> False))"

section \<open>Queries on a parsed page\<close>

fun descendants :: "node \<Rightarrow> node list" where
  \<comment> \<open>the elements of a tree in document order, the root first\<close>
  "descendants (Text t) = []"
| "descendants (Element tag attrs kids) =
     Element tag attrs kids # concat (map descendants kids)"

fun text_content :: "node \<Rightarrow> string" where
  \<comment> \<open>the XPath string value of a node\<close>
  "text_content (Text t) = t"
| "text_content (Element tag attrs kids) = concat (map text_content kids)"

definition tag_of :: "node \<Rightarrow> string" where
  "tag_of n = (case n of Element tag _ _ \<Rightarrow> tag | Text _ \<Rightarrow> [])"

definition attr :: "node \<Rightarrow> string \<Rightarrow> string option" where
  "attr n k = (case n of Element _ attrs _ \<Rightarrow> map_of attrs k | Text _ \<Rightarrow> None)"

definition text_children :: "node \<Rightarrow> string list" where
  "text_children n =
     (case n of
        Element _ _ kids \<Rightarrow> concat (map (\<lambda>k. case k of Text t \<Rightarrow> [t] | _ \<Rightarrow> []) kids)
      | Text _ \<Rightarrow> [])"

definition xpath_string :: "(node \<Rightarrow> bool) \<Rightarrow> node \<Rightarrow> string" where
  \<comment> \<open>\<^verbatim>\<open>string(//...)\<close>: the string value of the first match, empty without one\<close>
  "xpath_string sel tree =
     (case filter sel (descendants tree) of [] \<Rightarrow> [] | n # _ \<Rightarrow> text_content n)"

section \<open>Metadata extractor\<close>

record ArticleMeta =
  title :: pyval
  author :: pyval
  published :: pyval
  source_url :: string
  language :: string

fun truthy :: "pyval \<Rightarrow> bool" where
  "truthy PNone = False"
| "truthy (PBool b) = b"
| "truthy (PInt i) = (i \<noteq> 0)"
| "truthy (PStr s) = (s \<noteq> [])"
| "truthy (PList xs) = (xs \<noteq> [])"
| "truthy (PDict kvs) = (kvs \<noteq> [])"

definition py_or :: "pyval \<Rightarrow> pyval \<Rightarrow> pyval" where
  "py_or a b = (if truthy a then a else b)"

definition dict_get :: "(string \<times> pyval) list \<Rightarrow> string \<Rightarrow> pyval" where
  \<comment> \<open>\<^verbatim>\<open>d.get(k)\<close>\<close>
  "dict_get d k = (case map_of d k of Some v \<Rightarrow> v | None \<Rightarrow> PNone)"

definition is_dict :: "pyval \<Rightarrow> bool" where
  "is_dict v = (case v of PDict _ \<Rightarrow> True | _ \<Rightarrow> False)"

definition unhashable :: "pyval \<Rightarrow> bool" where
  "unhashable v = (case v of PList _ \<Rightarrow> True | PDict _ \<Rightarrow> True | _ \<Rightarrow> False)"

fun str_join :: "string \<Rightarrow> string list \<Rightarrow> string" where
  \<comment> \<open>\<^verbatim>\<open>sep.join(parts)\<close>\<close>
  "str_join sep [] = []"
| "str_join sep [x] = x"
| "str_join sep (x # y # ys) = x @ sep @ str_join sep (y # ys)"

definition join_names :: "pyval list \<Rightarrow> exn + string" where
  \<comment> \<open>line 195: the truthy names joined by a comma and a space; a name that is kept and is
      not a string is a \<^verbatim>\<open>TypeError\<close>\<close>
  "join_names names =
     (let kept = filter truthy names in
      if list_all (\<lambda>v. case v of PStr _ \<Rightarrow> True | _ \<Rightarrow> False) kept
      then Inr (str_join '', ''
                  (map (\<lambda>v. case v of PStr s \<Rightarrow> s | _ \<Rightarrow> []) kept))
      else Inl TypeError)"

record fields =
  f_title :: pyval
  f_author :: pyval
  f_published :: pyval

definition article_types :: "pyval list" where
  "article_types = [PStr ''Article'', PStr ''NewsArticle'']"

definition scan_item :: "fields \<Rightarrow> (string \<times> pyval) list \<Rightarrow> exn + fields" where
  \<comment> \<open>the body of the inner loop, lines 188 to 197\<close>
  "scan_item st item =
     (if unhashable (dict_get item ''@type'') then Inl TypeError
      else if dict_get item ''@type'' \<notin> set article_types then Inr st
      else
        (let st1 = st\<lparr>f_title := py_or (dict_get item ''headline'') (f_title st),
                      f_published := py_or (dict_get item ''datePublished'') (f_published st)\<rparr>
         in case dict_get item ''author'' of
              PList author_data \<Rightarrow>
                (case join_names (map (\<lambda>a. case a of PDict d \<Rightarrow> dict_get d ''name'' | _ \<Rightarrow> PNone)
                                     (filter is_dict author_data)) of
                   Inl e \<Rightarrow> Inl e
                 | Inr joined \<Rightarrow> Inr (st1\<lparr>f_author := py_or (PStr joined) (f_author st1)\<rparr>))
            | PDict author_data \<Rightarrow>
                Inr (st1\<lparr>f_author := (case map_of author_data ''name'' of
                                         Some v \<Rightarrow> v | None \<Rightarrow> f_author st1)\<rparr>)
            | _ \<Rightarrow> Inr st1))"

fun scan_items :: "fields \<Rightarrow> pyval list \<Rightarrow> exn + fields" where
  "scan_items st [] = Inr st"
| "scan_items st (item # rest) =
     (case item of
        PDict d \<Rightarrow> (case scan_item st d of Inl e \<Rightarrow> Inl e | Inr st1 \<Rightarrow> scan_items st1 rest)
      | _ \<Rightarrow> scan_items st rest)"

definition candidates :: "pyval \<Rightarrow> pyval list" where
  \<comment> \<open>a list gives its dictionaries, a dictionary itself, anything else nothing\<close>
  "candidates data =
     (case data of PList items \<Rightarrow> filter is_dict items | PDict d \<Rightarrow> [PDict d] | _ \<Rightarrow> [])"

fun scan_blocks :: "library \<Rightarrow> fields \<Rightarrow> string list \<Rightarrow> exn + fields" where
  \<comment> \<open>the outer loop over the JSON-LD script texts\<close>
  "scan_blocks L st [] = Inr st"
| "scan_blocks L st (block # rest) =
     (case json_loads L block of
        None \<Rightarrow> scan_blocks L st rest
      | Some data \<Rightarrow>
          (case scan_items st (candidates data) of
             Inl e \<Rightarrow> Inl e
           | Inr st1 \<Rightarrow> scan_blocks L st1 rest))"

definition is_ld_json :: "node \<Rightarrow> bool" where
  "is_ld_json n = (tag_of n = ''script'' \<and> attr n ''type'' = Some ''application/ld+json'')"

definition ld_json_blocks :: "node \<Rightarrow> string list" where
  \<comment> \<open>line 176: the texts of the script elements of type \<^verbatim>\<open>application/ld+json\<close>\<close>
  "ld_json_blocks tree = concat (map text_children (filter is_ld_json (descendants tree)))"

definition txt_untitled :: string where
  "txt_untitled = [CHR 0xE6, CHR 0x9C, CHR 0xAA, CHR 0xE5, CHR 0x91, CHR 0xBD, CHR 0xE5,
     CHR 0x90, CHR 0x8D, CHR 0xE6, CHR 0x96, CHR 0x87, CHR 0xE7, CHR 0xAB, CHR 0xA0]"

definition txt_unknown_author :: string where
  "txt_unknown_author = [CHR 0xE6, CHR 0x9C, CHR 0xAA, CHR 0xE7, CHR 0x9F, CHR 0xA5,
     CHR 0xE4, CHR 0xBD, CHR 0x9C, CHR 0xE8, CHR 0x80, CHR 0x85]"

definition fallback_field :: "pyval \<Rightarrow> (node \<Rightarrow> bool) \<Rightarrow> node \<Rightarrow> pyval" where
  \<comment> \<open>a field still empty after the scan is read from the page\<close>
  "fallback_field v sel tree = (if truthy v then v else PStr (strip (xpath_string sel tree)))"

definition finish_meta :: "fields \<Rightarrow> node \<Rightarrow> string \<Rightarrow> string \<Rightarrow> ArticleMeta" where
  \<comment> \<open>lines 199 to 213\<close>
  "finish_meta st tree language_code url =
     \<lparr>title = py_or (fallback_field (f_title st) (\<lambda>n. tag_of n = ''h1'') tree)
                (PStr txt_untitled),
      author = py_or (fallback_field (f_author st)
                        (\<lambda>n. attr n ''data-testid'' = Some ''byline-name'') tree)
                 (PStr txt_unknown_author),
      published = fallback_field (f_published st)
                    (\<lambda>n. attr n ''data-testid'' = Some ''publish-date'') tree,
      source_url = url,
      language = language_code\<rparr>"

definition extract_article_meta ::
  "library \<Rightarrow> node \<Rightarrow> string \<Rightarrow> string \<Rightarrow> exn + ArticleMeta" where
  "extract_article_meta L tree language_code url =
     (case scan_blocks L \<lparr>f_title = PStr [], f_author = PStr [], f_published = PStr []\<rparr>
             (ld_json_blocks tree) of
        Inl e \<Rightarrow> Inl e
      | Inr st \<Rightarrow> Inr (finish_meta st tree language_code url))"

section \<open>Variant resolver\<close>

definition is_alternate_link :: "node \<Rightarrow> bool" where
  \<comment> \<open>line 223: a link element with \<^verbatim>\<open>rel\<close> equal to \<^verbatim>\<open>alternate\<close> and an
      \<^verbatim>\<open>hreflang\<close> attribute\<close>
  "is_alternate_link n =
     (tag_of n = ''link'' \<and> attr n ''rel'' = Some ''alternate'' \<and> attr n ''hreflang'' \<noteq> None)"

definition attr_or_empty :: "node \<Rightarrow> string \<Rightarrow> string" where
  \<comment> \<open>an attribute, the empty string when it is missing\<close>
  "attr_or_empty n k = (case attr n k of Some v \<Rightarrow> v | None \<Rightarrow> [])"

fun add_variants ::
  "library \<Rightarrow> string \<Rightarrow> node list \<Rightarrow> (string \<rightharpoonup> string) \<Rightarrow> (string \<rightharpoonup> string)" where
  "add_variants L base_url [] variants = variants"
| "add_variants L base_url (link # rest) variants =
     (let lang = strip (attr_or_empty link ''hreflang'');
          href = strip (attr_or_empty link ''href'')
      in if lang = [] \<or> href = [] then add_variants L base_url rest variants
         else add_variants L base_url rest
                (variants(str_lower L lang \<mapsto> urljoin L base_url href)))"

definition extract_language_variants :: "library \<Rightarrow> node \<Rightarrow> string \<Rightarrow> (string \<rightharpoonup> string)" where
  "extract_language_variants L tree base_url =
     add_variants L base_url (filter is_alternate_link (descendants tree)) Map.empty"

section \<open>Content extractor\<close>

text \<open>
  The module imports \<^verbatim>\<open>trafilatura\<close> and, only when that import fails, binds \<^verbatim>\<open>md\<close> to
  markdownify. The state of the module after its imports is one of the two.
\<close>

datatype extractor =
    Trafilatura "string \<Rightarrow> string \<Rightarrow> string option"
  | Markdownify "string \<Rightarrow> string"

definition is_main_container :: "node \<Rightarrow> bool" where
  \<comment> \<open>line 248: the union of \<^verbatim>\<open>//article\<close>, \<^verbatim>\<open>//main\<close> and the elements whose
      \<^verbatim>\<open>data-component\<close> is \<^verbatim>\<open>Article\<close>\<close>
  "is_main_container n =
     (case n of
        Element tag attrs kids \<Rightarrow>
          tag = ''article'' \<or> tag = ''main'' \<or> map_of attrs ''data-component'' = Some ''Article''
      | Text _ \<Rightarrow> False)"

definition html_fragment :: "library \<Rightarrow> node \<Rightarrow> string" where
  \<comment> \<open>lines 248 to 251: the matched elements in document order, or the whole tree\<close>
  "html_fragment L tree =
     (let node = filter is_main_container (descendants tree)
      in concat (map (tostring L) (if node = [] then [tree] else node)))"

definition markdown_fallback :: "extractor \<Rightarrow> library \<Rightarrow> string \<Rightarrow> exn + string" where
  \<comment> \<open>lines 247 to 252; the name \<^verbatim>\<open>md\<close> is bound only if trafilatura is missing\<close>
  "markdown_fallback X L html_text =
     (let fragment = html_fragment L (fromstring L html_text)
      in case X of Markdownify md \<Rightarrow> Inr (md fragment) | Trafilatura _ \<Rightarrow> Inl NameError)"

definition html_to_markdown :: "extractor \<Rightarrow> library \<Rightarrow> string \<Rightarrow> string \<Rightarrow> exn + string" where
  "html_to_markdown X L html_text url =
     (case X of
        Trafilatura extract \<Rightarrow>
          (case extract html_text url of
             Some result \<Rightarrow> if result \<noteq> [] then Inr result else markdown_fallback X L html_text
           | None \<Rightarrow> markdown_fallback X L html_text)
      | Markdownify _ \<Rightarrow> markdown_fallback X L html_text)"

fun imgs_under :: "bool \<Rightarrow> node \<Rightarrow> node list" where
  \<comment> \<open>\<^verbatim>\<open>//article//img | //main//img\<close>: the images below an article or main element\<close>
  "imgs_under inside (Text t) = []"
| "imgs_under inside (Element tag attrs kids) =
     (if tag = ''img'' \<and> inside then [Element tag attrs kids] else [])
       @ concat (map (imgs_under (inside \<or> tag = ''article'' \<or> tag = ''main'')) kids)"

definition str_truthy :: "string option \<Rightarrow> bool" where
  "str_truthy v = (case v of Some s \<Rightarrow> s \<noteq> [] | None \<Rightarrow> False)"

definition or_else :: "string option \<Rightarrow> string option \<Rightarrow> string option" where
  \<comment> \<open>Python's \<^verbatim>\<open>a or b\<close> on optional strings\<close>
  "or_else a b = (if str_truthy a then a else b)"

fun collect_from :: "library \<Rightarrow> string \<Rightarrow> node list \<Rightarrow> (string \<times> string) list" where
  "collect_from L base_url [] = []"
| "collect_from L base_url (img # rest) =
     (case or_else (attr img ''src'') (attr img ''data-src'') of
        Some src \<Rightarrow>
          if src = [] then collect_from L base_url rest
          else (urljoin L base_url src, strip (attr_or_empty img ''alt''))
                 # collect_from L base_url rest
      | None \<Rightarrow> collect_from L base_url rest)"

definition collect_images :: "library \<Rightarrow> node \<Rightarrow> string \<Rightarrow> (string \<times> string) list" where
  "collect_images L tree base_url = collect_from L base_url (imgs_under False tree)"

section \<open>Content rewriting\<close>

text \<open>
  One match of the pattern \<^verbatim>\<open>!\[(?P<alt>[^\]]*)\]\((?P<src>[^)]+)\)\<close> at the start of a
  text. Neither group can cross its closing delimiter, so the greedy match is the only one:
  the alt text runs to the first \<^verbatim>\<open>]\<close>, the source to the first \<^verbatim>\<open>)\<close>.
\<close>

definition match_image :: "string \<Rightarrow> (string \<times> string \<times> string) option" where
  "match_image s =
     (if startswith s ''!['' then
        (let r = drop 2 s;
             alt = takeWhile (\<lambda>c. c \<noteq> CHR '']'') r;
             r1 = dropWhile (\<lambda>c. c \<noteq> CHR '']'') r
         in if startswith r1 '']('' then
              (let r2 = drop 2 r1;
                   src = takeWhile (\<lambda>c. c \<noteq> CHR '')'') r2;
                   r3 = dropWhile (\<lambda>c. c \<noteq> CHR '')'') r2
               in if src \<noteq> [] \<and> r3 \<noteq> [] then Some (alt, src, tl r3) else None)
            else None)
      else None)"

lemma match_image_shorter:
  "match_image s = Some (alt, src, rest) \<Longrightarrow> length rest < length s"
proof -
  assume m: "match_image s = Some (alt, src, rest)"
  let ?r = "drop 2 s"
  let ?r1 = "dropWhile (\<lambda>c. c \<noteq> CHR '']'') ?r"
  let ?r2 = "drop 2 ?r1"
  let ?r3 = "dropWhile (\<lambda>c. c \<noteq> CHR '')'') ?r2"
  from m have rest: "rest = tl ?r3" and ne: "?r3 \<noteq> []"
    by (auto simp: match_image_def Let_def split: if_splits)
  have "length rest < length ?r3"
    using ne rest by (cases ?r3) simp_all
  also have "\<dots> \<le> length ?r2" by (rule length_dropWhile_le)
  also have "\<dots> \<le> length ?r1" by simp
  also have "\<dots> \<le> length ?r" by (rule length_dropWhile_le)
  also have "\<dots> \<le> length s" by simp
  finally show ?thesis .
qed

text \<open>
  \<^verbatim>\<open>pattern.sub(repl, text)\<close>: the text is scanned from the left; a match is replaced and
  the scan goes on behind it, any other character is copied.
\<close>

function re_sub_image :: "(string \<Rightarrow> string \<Rightarrow> string) \<Rightarrow> string \<Rightarrow> string" where
  "re_sub_image repl [] = []"
| "re_sub_image repl (c # cs) =
     (case match_image (c # cs) of
        Some (alt, src, rest) \<Rightarrow> repl alt src @ re_sub_image repl rest
      | None \<Rightarrow> c # re_sub_image repl cs)"
  by pat_completeness auto
termination
  by (relation "measure (\<lambda>(repl, s). length s)") (auto dest: match_image_shorter)

definition image_ref :: "string \<Rightarrow> string \<Rightarrow> string" where
  "image_ref alt src = ''!['' @ alt @ '']('' @ src @ '')''"

definition rewrite_markdown_images :: "string \<Rightarrow> (string \<rightharpoonup> string) \<Rightarrow> string" where
  "rewrite_markdown_images markdown_text replacement_map =
     re_sub_image
       (\<lambda>alt src. image_ref alt (case replacement_map src of Some new_src \<Rightarrow> new_src
                                                       | None \<Rightarrow> src))
       markdown_text"

section \<open>Pipeline orchestrator\<close>

record DownloadResult =
  meta :: ArticleMeta
  markdown_path :: path
  assets :: "path list"
  warnings :: "string list"

record StoryScraper =
  output_root :: path
  asset_root :: path
  sleep_seconds :: real

definition txt_fetch_failed :: string where
  \<comment> \<open>the title of a failed variant's record\<close>
  "txt_fetch_failed = [CHR 0xE6, CHR 0x8A, CHR 0x93, CHR 0xE5, CHR 0x8F, CHR 0x96, CHR 0xE5,
     CHR 0xA4, CHR 0xB1, CHR 0xE8, CHR 0xB4, CHR 0xA5]"

definition txt_variant_unavailable :: string where
  "txt_variant_unavailable = [CHR 0xE5, CHR 0xA4, CHR 0x9A, CHR 0xE8, CHR 0xAF, CHR 0xAD, CHR 0xE8,
     CHR 0xA8, CHR 0x80, CHR 0xE9, CHR 0xA1, CHR 0xB5, CHR 0xE9, CHR 0x9D,
     CHR 0xA2, CHR 0xE4, CHR 0xB8, CHR 0x8D, CHR 0xE5, CHR 0x8F, CHR 0xAF,
     CHR 0xE7, CHR 0x94, CHR 0xA8, CHR 0xEF, CHR 0xBC, CHR 0x9A]"

definition txt_no_english :: string where
  "txt_no_english = ''[x] '' @ [CHR 0xE6, CHR 0x97, CHR 0xA0, CHR 0xE6, CHR 0xB3, CHR 0x95, CHR 0xE8,
     CHR 0x8E, CHR 0xB7, CHR 0xE5, CHR 0x8F, CHR 0x96, CHR 0xE8, CHR 0x8B,
     CHR 0xB1, CHR 0xE6, CHR 0x96, CHR 0x87, CHR 0xE5, CHR 0x8E, CHR 0x9F,
     CHR 0xE6, CHR 0x96, CHR 0x87, CHR 0xEF, CHR 0xBC, CHR 0x9A]"

definition txt_processing :: string where
  "txt_processing = [CHR 0xE5, CHR 0xA4, CHR 0x84, CHR 0xE7, CHR 0x90, CHR 0x86]"

definition txt_notice :: string where
  "txt_notice = [CHR 0x5F, CHR 0xE6, CHR 0xB3, CHR 0xA8, CHR 0xEF, CHR 0xBC, CHR 0x9A,
     CHR 0xE9, CHR 0x9D, CHR 0x9E, CHR 0xE7, CHR 0x9B, CHR 0x88, CHR 0xE5,
     CHR 0x88, CHR 0xA9, CHR 0xE5, CHR 0x90, CHR 0x8C, CHR 0xE4, CHR 0xBA,
     CHR 0xBA, CHR 0xE6, CHR 0x95, CHR 0xB4, CHR 0xE7, CHR 0x90, CHR 0x86,
     CHR 0xEF, CHR 0xBC, CHR 0x8C, CHR 0xE9, CHR 0x81, CHR 0xB5, CHR 0xE5,
     CHR 0xBE, CHR 0xAA, CHR 0xE5, CHR 0xA8, CHR 0x81, CHR 0xE4, CHR 0xB8,
     CHR 0x96, CHR 0xE6, CHR 0x99, CHR 0xBA, CHR 0xE7, CHR 0xB2, CHR 0x89,
     CHR 0xE4, CHR 0xB8, CHR 0x9D, CHR 0xE5, CHR 0x86, CHR 0x85, CHR 0xE5,
     CHR 0xAE, CHR 0xB9, CHR 0xE6, CHR 0x94, CHR 0xBF, CHR 0xE7, CHR 0xAD,
     CHR 0x96, CHR 0xEF, CHR 0xBC, CHR 0x8C, CHR 0xE4, CHR 0xBB, CHR 0x85,
     CHR 0xE4, CHR 0xBE, CHR 0x9B, CHR 0xE6, CHR 0x95, CHR 0x99, CHR 0xE5,
     CHR 0xAD, CHR 0xA6, CHR 0xE4, CHR 0xB8, CHR 0x8E, CHR 0xE8, CHR 0xB7,
     CHR 0x91, CHR 0xE5, CHR 0x9B, CHR 0xA2, CHR 0xE4, CHR 0xBD, CHR 0xBF,
     CHR 0xE7, CHR 0x94, CHR 0xA8, CHR 0xE3, CHR 0x80, CHR 0x82, CHR 0x5F]"

definition unavailable_warning :: "string \<Rightarrow> string \<Rightarrow> string" where
  "unavailable_warning lang_code lang_url =
     txt_variant_unavailable @ lang_code @ '' -> '' @ lang_url"

definition front_matter :: "library \<Rightarrow> ArticleMeta \<Rightarrow> string list" where
  "front_matter L m =
     [''---'',
      ''title: '' @ [CHR 0x22] @ py_str L (title m) @ [CHR 0x22],
      ''author: '' @ py_str L (author m),
      ''published: '' @ py_str L (published m),
      ''source: '' @ source_url m,
      ''language: '' @ language m,
      ''tags: [Strixhaven, Magic Story]'',
      ''---'',
      [],
      txt_notice,
      []]"

text \<open>The loop over the images of one variant, lines 423 to 438.\<close>

fun download_images ::
  "library \<Rightarrow> client \<Rightarrow> string \<Rightarrow> path \<Rightarrow> (string \<times> string) list \<Rightarrow> int
     \<Rightarrow> world \<Rightarrow> asset_manager \<Rightarrow> (string \<rightharpoonup> string) \<Rightarrow> path list \<Rightarrow> string list
     \<Rightarrow> world \<times> asset_manager \<times> (exn + (string \<rightharpoonup> string) \<times> path list \<times> string list)" where
  "download_images L c slug markdown_dir [] idx w am replacement_map assets0 warnings0 =
     (w, am, Inr (replacement_map, assets0, warnings0))"
| "download_images L c slug markdown_dir ((img_url, alt) # rest) idx w am
       replacement_map assets0 warnings0 =
     (case ensure_download L c am w slug img_url alt idx of
        (w1, am1, Inl e) \<Rightarrow> (w1, am1, Inl e)
      | (w1, am1, Inr (local_path, warn)) \<Rightarrow>
          if str_truthy warn
          then download_images L c slug markdown_dir rest (idx + 1) w1 am1
                 replacement_map assets0 (warnings0 @ [the warn])
          else
            (case local_path of
               None \<Rightarrow> download_images L c slug markdown_dir rest (idx + 1) w1 am1
                         replacement_map assets0 warnings0
             | Some p \<Rightarrow> download_images L c slug markdown_dir rest (idx + 1) w1 am1
                          (replacement_map(img_url \<mapsto> relpath_posix L p markdown_dir))
                          (assets0 @ [p]) warnings0))"

definition process_variant ::
  "StoryScraper \<Rightarrow> extractor \<Rightarrow> library \<Rightarrow> client \<Rightarrow> string \<Rightarrow> string \<Rightarrow> string \<Rightarrow> node
     \<Rightarrow> string \<Rightarrow> string list \<Rightarrow> world \<Rightarrow> asset_manager
     \<Rightarrow> world \<times> asset_manager \<times> (exn + DownloadResult)" where
  \<comment> \<open>lines 413 to 465: one fetched variant is extracted, its images stored, its file written\<close>
  "process_variant S X L c slug lang_code lang_url cached_tree cached_html warnings0 w am =
     (case extract_article_meta L cached_tree lang_code lang_url of
        Inl e \<Rightarrow> (w, am, Inl e)
      | Inr m \<Rightarrow>
         (case html_to_markdown X L cached_html lang_url of
            Inl e \<Rightarrow> (w, am, Inl e)
          | Inr markdown \<Rightarrow>
             (let images = collect_images L cached_tree lang_url;
                  markdown_dir = output_root S @ [slug];
                  w1 = mkdir_parents markdown_dir w
              in case download_images L c slug markdown_dir images 1 w1 am
                        Map.empty [] warnings0 of
                   (w2, am2, Inl e) \<Rightarrow> (w2, am2, Inl e)
                 | (w2, am2, Inr (replacement_map, assets1, warnings1)) \<Rightarrow>
                     (let markdown1 = rewrite_markdown_images markdown replacement_map;
                          markdown_path1 = markdown_dir @ [lang_code @ ''.md''];
                          w3 = write_file markdown_path1
                                 (str_join [CHR 0x0A] (front_matter L m) @ markdown1) w2
                      in (w3, am2, Inr \<lparr>meta = m, markdown_path = markdown_path1,
                                         assets = assets1, warnings = warnings1\<rparr>)))))"

definition failed_result :: "StoryScraper \<Rightarrow> string \<Rightarrow> string \<Rightarrow> string \<Rightarrow> string list
     \<Rightarrow> DownloadResult" where
  \<comment> \<open>lines 392 to 405: the record of a variant whose page could not be fetched\<close>
  "failed_result S slug lang_code lang_url warnings1 =
     \<lparr>meta = \<lparr>title = PStr txt_fetch_failed, author = PStr [], published = PStr [],
               source_url = lang_url, language = lang_code\<rparr>,
      markdown_path = output_root S @ [slug] @ [lang_code @ ''.md''],
      assets = [],
      warnings = warnings1\<rparr>"

type_synonym plan_entry = "string \<times> string \<times> node option \<times> string option \<times> string list"

definition no_text :: "string option \<Rightarrow> bool" where
  \<comment> \<open>Python's \<^verbatim>\<open>not html_text\<close>\<close>
  "no_text t = (\<not> str_truthy t)"

text \<open>The loop over the language plan, lines 381 to 465.\<close>

fun process_plan ::
  "StoryScraper \<Rightarrow> extractor \<Rightarrow> library \<Rightarrow> client \<Rightarrow> string \<Rightarrow> plan_entry list
     \<Rightarrow> world \<Rightarrow> asset_manager \<Rightarrow> DownloadResult list
     \<Rightarrow> world \<times> asset_manager \<times> (exn + DownloadResult list)" where
  "process_plan S X L c slug [] w am results = (w, am, Inr results)"
| "process_plan S X L c slug ((lang_code, lang_url, cached_tree, cached_html, warnings0) # rest)
       w am results =
     (case cached_html of
        None \<Rightarrow>
          (case fetch_html L c lang_url lang_code 3 (sleep_seconds S) w of
             (w1, Inl e) \<Rightarrow> (w1, am, Inl e)
           | (w1, Inr (html_text, new_warnings)) \<Rightarrow>
               if no_text html_text
               then process_plan S X L c slug rest
                      (mkdir_parents (output_root S @ [slug]) w1) am
                      (results @ [failed_result S slug lang_code lang_url
                         (warnings0 @ new_warnings @ [unavailable_warning lang_code lang_url])])
               else
                 (case process_variant S X L c slug lang_code lang_url
                         (fromstring L (the html_text)) (the html_text)
                         (warnings0 @ new_warnings) w1 am of
                    (w2, am2, Inl e) \<Rightarrow> (w2, am2, Inl e)
                  | (w2, am2, Inr result) \<Rightarrow>
                      process_plan S X L c slug rest w2 am2 (results @ [result])))
      | Some html \<Rightarrow>
          (case cached_tree of
             None \<Rightarrow> (w, am, Inl AssertionError)
           | Some tree \<Rightarrow>
               (case process_variant S X L c slug lang_code lang_url tree html warnings0 w am of
                  (w2, am2, Inl e) \<Rightarrow> (w2, am2, Inl e)
                | (w2, am2, Inr result) \<Rightarrow>
                    process_plan S X L c slug rest w2 am2 (results @ [result]))))"

definition zh_variant :: "(string \<rightharpoonup> string) \<Rightarrow> string option" where
  \<comment> \<open>line 377\<close>
  "zh_variant variants =
     or_else (or_else (variants ''zh'') (variants ''zh-cn'')) (variants ''zh-hans'')"

definition language_plan ::
  "string \<Rightarrow> node \<Rightarrow> string \<Rightarrow> string list \<Rightarrow> (string \<rightharpoonup> string) \<Rightarrow> plan_entry list" where
  \<comment> \<open>lines 375 to 379\<close>
  "language_plan url en_tree en_html en_warnings variants =
     (''en'', url, Some en_tree, Some en_html, en_warnings)
       # (if str_truthy (zh_variant variants)
          then [(''zh-Hans'', the (zh_variant variants), None, None, [])] else [])"

definition scrape_article ::
  "StoryScraper \<Rightarrow> extractor \<Rightarrow> library \<Rightarrow> client \<Rightarrow> world \<Rightarrow> asset_manager \<Rightarrow> string
     \<Rightarrow> world \<times> asset_manager \<times> (exn + DownloadResult list)" where
  "scrape_article S X L c w am url =
     (let slug = derive_slug L url
      in case fetch_html L c url ''en'' 3 (sleep_seconds S) w of
           (w1, Inl e) \<Rightarrow> (w1, am, Inl e)
         | (w1, Inr (en_html, en_warnings)) \<Rightarrow>
             if no_text en_html then (emit (Print (txt_no_english @ url)) w1, am, Inr [])
             else
               (let en_tree = fromstring L (the en_html);
                    variants = extract_language_variants L en_tree url
                in process_plan S X L c slug
                     (language_plan url en_tree (the en_html) en_warnings variants)
                     w1 am []))"

definition TARGET_ARTICLES :: "string list" where
  "TARGET_ARTICLES =
     map (\<lambda>name. ''https://magic.wizards.com/en/news/magic-story/'' @ name)
       [''episode-1-class-session-2021-03-25'',
        ''cry-magic-2021-03-26'',
        ''episode-2-lessons-2021-03-31'',
        ''episode-3-extracurriculars-2021-04-07'',
        ''chains-bind-2021-04-09'',
        ''episode-4-put-test-2021-04-14'',
        ''mentor-2021-04-16'',
        ''episode-5-final-exam-2021-04-21'',
        ''blue-green-ribbons-2021-04-23'',
        ''silent-voice-calls-2021-04-30'']"

text \<open>
  The loop of \<^verbatim>\<open>run\<close> over the target articles; \<open>n_articles\<close> is the length of the whole list,
  printed with each article.
\<close>

fun run_articles ::
  "StoryScraper \<Rightarrow> extractor \<Rightarrow> library \<Rightarrow> client \<Rightarrow> int option \<Rightarrow> nat \<Rightarrow> string list \<Rightarrow> int
     \<Rightarrow> world \<Rightarrow> asset_manager \<Rightarrow> DownloadResult list
     \<Rightarrow> world \<times> asset_manager \<times> (exn + DownloadResult list)" where
  "run_articles S X L c limit n_articles [] idx w am all_results = (w, am, Inr all_results)"
| "run_articles S X L c limit n_articles (url # rest) idx w am all_results =
     (if (case limit of Some l \<Rightarrow> idx > l | None \<Rightarrow> False) then (w, am, Inr all_results)
      else
        (let w0 = emit (Print (''[>] ('' @ str_int idx @ ''/'' @ str_nat n_articles @ '') ''
                                 @ txt_processing @ '' '' @ url)) w
         in case scrape_article S X L c w0 am url of
              (w1, am1, Inl e) \<Rightarrow> (w1, am1, Inl e)
            | (w1, am1, Inr results) \<Rightarrow>
                run_articles S X L c limit n_articles rest (idx + 1)
                  (emit (Sleep (sleep_seconds S)) w1) am1 (all_results @ results)))"

definition run ::
  "StoryScraper \<Rightarrow> extractor \<Rightarrow> library \<Rightarrow> client \<Rightarrow> int option \<Rightarrow> world \<Rightarrow> asset_manager
     \<Rightarrow> world \<times> asset_manager \<times> (exn + DownloadResult list)" where
  "run S X L c limit w am =
     run_articles S X L c limit (length TARGET_ARTICLES) TARGET_ARTICLES 1
       (mkdir_parents (asset_root S) (mkdir_parents (output_root S) w)) am []"

section \<open>Simulated collaborators\<close>

text \<open>
  Concrete stand-ins for the library, the site and the pages, on which the theorems below
  are run.
\<close>

definition last_segment :: "string \<Rightarrow> string" where
  "last_segment u = rev (takeWhile (\<lambda>c. c \<noteq> CHR ''/'') (rev u))"

definition simple_suffix :: "string \<Rightarrow> string" where
  "simple_suffix u =
     (let name = last_segment u
      in if CHR ''.'' \<in> set name
         then CHR ''.'' # rev (takeWhile (\<lambda>c. c \<noteq> CHR ''.'') (rev name)) else [])"

fun drop_common :: "path \<Rightarrow> path \<Rightarrow> path \<times> path" where
  "drop_common (a # as) (b # bs) = (if a = b then drop_common as bs else (a # as, b # bs))"
| "drop_common as bs = (as, bs)"

definition simple_relpath :: "path \<Rightarrow> path \<Rightarrow> string" where
  "simple_relpath p d =
     (case drop_common p d of (p', d') \<Rightarrow> str_join ''/'' (replicate (length d') ''..'' @ p'))"

fun render :: "node \<Rightarrow> string" where
  "render (Text t) = t"
| "render (Element tag attrs kids) =
     ''<'' @ tag @ concat (map (\<lambda>(k, v). '' '' @ k @ ''='' @ v) attrs) @ ''>''
       @ concat (map render kids) @ ''</'' @ tag @ ''>''"

definition simple_py_str :: "pyval \<Rightarrow> string" where
  "simple_py_str v = (case v of PStr s \<Rightarrow> s | PInt i \<Rightarrow> str_int i | _ \<Rightarrow> ''None'')"

definition page_en :: node where
  "page_en =
     Element ''html'' []
       [Element ''head'' []
          [Element ''link'' [(''rel'', ''alternate''), (''hreflang'', ''zh-Hans''),
                             (''href'', ''https://site/zh/story'')] [],
           Element ''script'' [(''type'', ''application/ld+json'')] [Text ''LD1''],
           Element ''script'' [(''type'', ''application/ld+json'')] [Text ''LD2'']],
        Element ''body'' []
          [Element ''main'' []
             [Element ''article'' []
                [Element ''h1'' [] [Text ''Class Session''],
                 Element ''img'' [(''src'', ''https://site/a.png''), (''alt'', ''Cover'')] [],
                 Element ''img'' [(''src'', ''https://site/a.png''), (''alt'', ''Cover'')] []]]]]"

definition page_plain :: node where
  "page_plain =
     Element ''html'' []
       [Element ''body'' []
          [Element ''main'' [] [Text ''M''],
           Element ''article'' [] [Element ''h1'' [] [Text ''Plain''], Text ''A'']]]"

definition page_zh :: node where
  "page_zh =
     Element ''html'' []
       [Element ''body'' [] [Element ''article'' [] [Element ''h1'' [] [Text ''ZH'']]]]"

definition test_fromstring :: "string \<Rightarrow> node" where
  "test_fromstring s =
     (if s = ''EN-PAGE'' then page_en
      else if s = ''PLAIN-PAGE'' then page_plain
      else if s = ''ZH-PAGE'' then page_zh
      else Element ''html'' [] [Text s])"

definition test_json_loads :: "string \<Rightarrow> pyval option" where
  "test_json_loads s =
     (if s = ''LD1'' then
        Some (PDict [(''@type'', PStr ''Article''), (''headline'', PStr ''First''),
                     (''datePublished'', PStr ''2021-03-25''),
                     (''author'', PDict [(''name'', PStr ''Ann'')])])
      else if s = ''LD2'' then
        Some (PDict [(''@type'', PStr ''NewsArticle''), (''headline'', PStr ''Second'')])
      else None)"

definition ascii_lower :: "char \<Rightarrow> char" where
  "ascii_lower c =
     (case map_of (zip ''ABCDEFGHIJKLMNOPQRSTUVWXYZ'' ''abcdefghijklmnopqrstuvwxyz'') c of
        Some d \<Rightarrow> d | None \<Rightarrow> c)"

definition simple_lower :: "string \<Rightarrow> string" where
  \<comment> \<open>a stand-in for \<^verbatim>\<open>str.lower\<close> that lowers the ASCII letters\<close>
  "simple_lower s = map ascii_lower s"

definition test_library :: library where
  "test_library =
     \<lparr>url_suffix = simple_suffix, url_name = last_segment, urljoin = (\<lambda>base href. href),
      relpath_posix = simple_relpath, fromstring = test_fromstring, tostring = render,
      json_loads = test_json_loads, py_str = simple_py_str,
      str_lower = simple_lower\<rparr>"

definition author_json_loads :: "string \<Rightarrow> pyval option" where
  \<comment> \<open>article blocks whose author is a dictionary with a name, with a null name, with an
      empty name, and a list without names\<close>
  "author_json_loads s =
     (if s = ''ANN'' then
        Some (PDict [(''@type'', PStr ''Article''), (''headline'', PStr ''First''),
                     (''author'', PDict [(''name'', PStr ''Ann'')])])
      else if s = ''NULL-NAME'' then
        Some (PDict [(''@type'', PStr ''Article''), (''author'', PDict [(''name'', PNone)])])
      else if s = ''EMPTY-NAME'' then
        Some (PDict [(''@type'', PStr ''Article''), (''author'', PDict [(''name'', PStr [])])])
      else if s = ''NO-NAMES'' then
        Some (PDict [(''@type'', PStr ''Article''),
                     (''author'', PList [PDict [(''name'', PNone)]])])
      else None)"

definition author_library :: library where
  "author_library = test_library\<lparr>json_loads := author_json_loads\<rparr>"

definition page_blocks :: "string list \<Rightarrow> node" where
  \<comment> \<open>a page with the given JSON-LD blocks, a heading and no byline\<close>
  "page_blocks blocks =
     Element ''html'' []
       [Element ''head'' []
          (map (\<lambda>b. Element ''script'' [(''type'', ''application/ld+json'')] [Text b]) blocks),
        Element ''body'' [] [Element ''h1'' [] [Text ''Story'']]]"

definition site_client :: client where
  \<comment> \<open>a site that serves an English story, its Chinese variant and one image\<close>
  "site_client =
     \<lparr>on_get = (\<lambda>_ url _.
         if url = ''https://site/en/story'' then Response 200 ''EN-PAGE''
         else if url = ''https://site/en/plain'' then Response 200 ''PLAIN-PAGE''
         else if url = ''https://site/zh/story'' then Response 200 ''ZH-PAGE''
         else Response 404 []),
      on_stream = (\<lambda>_ url _.
         if url = ''https://site/a.png'' \<or> url = ''https://site/b.png''
         then StreamBody [''PNG'', ''DATA''] EndOfStream
         else StreamError ''404 Not Found'')\<rparr>"

definition zh_down_client :: client where
  \<comment> \<open>the same site with its Chinese pages timing out\<close>
  "zh_down_client =
     \<lparr>on_get = (\<lambda>_ url _.
         if url = ''https://site/en/story'' then Response 200 ''EN-PAGE''
         else HTTPError ''timed out''),
      on_stream = on_stream site_client\<rparr>"

definition timeout_client :: client where
  \<comment> \<open>a simulated transport on which every request times out\<close>
  "timeout_client = \<lparr>on_get = (\<lambda>_ _ _. HTTPError ''timed out''),
                     on_stream = (\<lambda>_ _ _. StreamError ''timed out'')\<rparr>"

definition world0 :: world where
  "world0 = \<lparr>trace = [], fs = []\<rparr>"

definition test_scraper :: StoryScraper where
  "test_scraper = \<lparr>output_root = [''output''], asset_root = [''assets''], sleep_seconds = 1\<rparr>"

definition am0 :: asset_manager where
  "am0 = \<lparr>base_dir = [''assets''], cache = Map.empty\<rparr>"

section \<open>Properties of the fetcher\<close>

lemma upto_1_3: "[1..3] = [1, 2, 3::int]"
  by code_simp

lemma fetch_attempts_all_fail:
  assumes "\<forall>h. failed_attempt (on_get c h url hs)"
  shows "fetch_attempts c url hs m sl as w ws =
     (w\<lparr>trace := trace w @ concat (replicate (length as) [Get url hs, Sleep sl])\<rparr>,
      Inr (None, ws @ map2 (\<lambda>out a. attempt_warning out url a m)
                         (attempt_outcomes c url hs sl (trace w) (length as)) as))"
  using assms
proof (induction as arbitrary: w ws)
  case Nil
  then show ?case by simp
next
  case (Cons a as)
  have f: "failed_attempt (on_get c (trace w) url hs)"
    using Cons.prems by blast
  show ?case
    using f Cons.IH[OF Cons.prems]
    by (cases "on_get c (trace w) url hs")
       (auto simp: failed_attempt_def attempt_warning_def emit_def)
qed

lemma sublist_attempt_suffix: "sublist (str_int a) (pre @ attempt_suffix a m)"
proof -
  have "pre @ attempt_suffix a m =
        (pre @ '' ('' @ txt_attempt @ '' '') @ str_int a @ (''/'' @ str_int m @ '')'')"
    by (simp add: attempt_suffix_def)
  then show ?thesis
    unfolding sublist_def by blast
qed

lemma attempt_warning_has_index:
  "failed_attempt out \<Longrightarrow> sublist (str_int a) (attempt_warning out url a m)"
  using sublist_attempt_suffix[of a "''HTTP '' @ str_int s @ fullwidth_colon @ url" m for s]
        sublist_attempt_suffix[of a "txt_request_error @ e" m for e]
  by (cases out) (simp_all add: attempt_warning_def failed_attempt_def
        status_warning_def exception_warning_def)

lemma status_warning_has_url: "sublist url (status_warning s url a m)"
proof -
  have "status_warning s url a m =
        (''HTTP '' @ str_int s @ fullwidth_colon) @ url @ attempt_suffix a m"
    by (simp add: status_warning_def)
  then show ?thesis
    unfolding sublist_def by blast
qed

lemma exception_warning_has_message: "sublist e (exception_warning e a m)"
  unfolding exception_warning_def by (rule sublist_appendI)

text \<open>
  C3 (amended). On a transport that fails on every attempt (a status other than 200, an empty
  body or an \<^verbatim>\<open>httpx.HTTPError\<close>), \<^verbatim>\<open>fetch_html\<close> with \<^verbatim>\<open>max_retries = 3\<close>
  sends exactly three requests, each followed by a sleep, and returns normally: an absent
  document and exactly three warnings, the i-th for the i-th answer. Every warning contains
  its attempt index; the warning for an answered request contains the URL, the warning for a
  transport error contains the error's message in its place.
\<close>

theorem fetch_html_all_attempts_fail:
  assumes "\<forall>h. failed_attempt (on_get c h url (build_headers L language_code))"
  shows "fetch_html L c url language_code 3 delay w =
      (w\<lparr>trace := trace w @ concat (replicate 3
            [Get url (build_headers L language_code), Sleep delay])\<rparr>,
       Inr (None, map2 (\<lambda>out a. attempt_warning out url a 3)
          (attempt_outcomes c url (build_headers L language_code) delay (trace w) 3)
          [1, 2, 3]))
    \<and> (\<forall>out a. failed_attempt out \<longrightarrow>
          sublist (str_int a) (attempt_warning out url a 3)
        \<and> (is_response out \<longrightarrow> sublist url (attempt_warning out url a 3))
        \<and> (\<forall>e. out = HTTPError e \<longrightarrow> sublist e (attempt_warning out url a 3)))"
proof -
  have "fetch_html L c url language_code 3 delay w =
      (w\<lparr>trace := trace w @ concat (replicate 3
            [Get url (build_headers L language_code), Sleep delay])\<rparr>,
       Inr (None, map2 (\<lambda>out a. attempt_warning out url a 3)
          (attempt_outcomes c url (build_headers L language_code) delay (trace w) 3)
          [1, 2, 3]))"
    using fetch_attempts_all_fail[OF assms, of 3 delay "[1, 2, 3]" w "[]"]
    by (simp add: fetch_html_def upto_1_3 numeral_3_eq_3 del: fetch_attempts.simps)
  moreover have "sublist url (attempt_warning out url a 3)" if "is_response out" for out a
    using that status_warning_has_url
    by (cases out) (simp_all add: is_response_def attempt_warning_def)
  moreover have "sublist e (attempt_warning (HTTPError e) url a 3)" for e a
    using exception_warning_has_message by (simp add: attempt_warning_def)
  ultimately show ?thesis
    using attempt_warning_has_index by blast
qed

theorem fetch_html_all_attempts_fail_witness:
  "fetch_html test_library timeout_client ''http://a'' ''en'' 3 1 world0 =
     (\<lparr>trace = [Get ''http://a'' (build_headers test_library ''en''), Sleep 1,
                Get ''http://a'' (build_headers test_library ''en''), Sleep 1,
                Get ''http://a'' (build_headers test_library ''en''), Sleep 1], fs = []\<rparr>,
      Inr (None, [exception_warning ''timed out'' 1 3,
                  exception_warning ''timed out'' 2 3,
                  exception_warning ''timed out'' 3 3]))
   \<and> sublist ''3'' (exception_warning ''timed out'' 3 3)
   \<and> sublist ''timed out'' (exception_warning ''timed out'' 3 3)
   \<and> sublist ''http://a'' (status_warning 404 ''http://a'' 2 3)
   \<and> sublist ''2'' (status_warning 404 ''http://a'' 2 3)"
proof -
  have fails: "\<forall>h. failed_attempt
      (on_get timeout_client h ''http://a'' (build_headers test_library ''en''))"
    by (simp add: timeout_client_def failed_attempt_def)
  note all = fetch_html_all_attempts_fail[OF fails, of 1 world0]
  have three: "str_int 3 = ''3''" and two: "str_int 2 = ''2''"
    by code_simp+
  have f: "failed_attempt (HTTPError ''timed out'')"
    by (simp add: failed_attempt_def)
  have g: "failed_attempt (Response 404 []) \<and> is_response (Response 404 [])"
    by (simp add: failed_attempt_def is_response_def)
  have run: "fetch_html test_library timeout_client ''http://a'' ''en'' 3 1 world0 =
     (\<lparr>trace = [Get ''http://a'' (build_headers test_library ''en''), Sleep 1,
                Get ''http://a'' (build_headers test_library ''en''), Sleep 1,
                Get ''http://a'' (build_headers test_library ''en''), Sleep 1], fs = []\<rparr>,
      Inr (None, [exception_warning ''timed out'' 1 3,
                  exception_warning ''timed out'' 2 3,
                  exception_warning ''timed out'' 3 3]))"
    using all[THEN conjunct1]
    by (simp add: numeral_3_eq_3 timeout_client_def world0_def attempt_warning_def)
  have "sublist (str_int 3) (attempt_warning (HTTPError ''timed out'') ''http://a'' 3 3)"
    using all[THEN conjunct2] f by blast
  then have idx: "sublist ''3'' (exception_warning ''timed out'' 3 3)"
    by (simp add: three attempt_warning_def)
  have "sublist ''timed out'' (attempt_warning (HTTPError ''timed out'') ''http://a'' 3 3)"
    using all[THEN conjunct2] f by blast
  then have msg: "sublist ''timed out'' (exception_warning ''timed out'' 3 3)"
    by (simp add: attempt_warning_def)
  have "sublist ''http://a'' (attempt_warning (Response 404 []) ''http://a'' 2 3)"
    using all[THEN conjunct2] g by blast
  then have url: "sublist ''http://a'' (status_warning 404 ''http://a'' 2 3)"
    by (simp add: attempt_warning_def)
  have "sublist (str_int 2) (attempt_warning (Response 404 []) ''http://a'' 2 3)"
    using all[THEN conjunct2] g by blast
  then have idx2: "sublist ''2'' (status_warning 404 ''http://a'' 2 3)"
    by (simp add: two attempt_warning_def)
  show ?thesis
    using run idx msg url idx2 by blast
qed

text \<open>
  The claim as written asks for the URL in every warning. On a transport that times out, the
  three warnings carry the exception's text and no URL.
\<close>

theorem fetch_html_warning_without_url:
  "failed_attempt (on_get timeout_client [] ''http://a'' (build_headers test_library ''en''))
   \<and> snd (fetch_html test_library timeout_client ''http://a'' ''en'' 3 1 world0) =
       Inr (None, [exception_warning ''timed out'' 1 3,
                   exception_warning ''timed out'' 2 3,
                   exception_warning ''timed out'' 3 3])
   \<and> \<not> sublist ''http://a'' (exception_warning ''timed out'' 1 3)"
proof -
  have "\<not> sublist ''http://a'' (exception_warning ''timed out'' 1 3)"
    by code_simp
  moreover have "failed_attempt (on_get timeout_client [] ''http://a'' (build_headers test_library ''en''))"
    by (simp add: timeout_client_def failed_attempt_def)
  moreover have "snd (fetch_html test_library timeout_client ''http://a'' ''en'' 3 1 world0) =
       Inr (None, [exception_warning ''timed out'' 1 3,
                   exception_warning ''timed out'' 2 3,
                   exception_warning ''timed out'' 3 3])"
    by (simp add: fetch_html_def upto_1_3 timeout_client_def emit_def)
  ultimately show ?thesis by simp
qed

section \<open>Properties of the asset manager\<close>

lemmas asset_eval = ensure_download_def setdefault_def mkdir_parents_def select_candidate_def
  free_candidate.simps path_exists_def base_name_def numbered_name_def sanitize_filename_def
  derived_stem_def derived_ext_def
  strip_def drop_leading.simps whitespace_def startswith_def unsafe_char_def fmt_02d_def
  str_int_def str_nat.simps digit_char_def
  test_library_def site_client_def simple_suffix_def last_segment_def emit_def write_file_def
  world0_def am0_def Let_def

lemma cache_hit:
  assumes "cache_lookup am slug remote_url = Some p"
  shows "ensure_download L c am w slug remote_url alt_text index = (w, am, Inr (Some p, None))"
  using assms
  by (auto simp: ensure_download_def cache_lookup_def setdefault_def split: option.splits)

lemma download_stores:
  assumes "ensure_download L c am w slug remote_url alt_text index = (w1, am1, Inr (Some p, None))"
  shows "cache_lookup am1 slug remote_url = Some p"
  using assms
  by (auto simp: ensure_download_def cache_lookup_def setdefault_def Let_def
      split: option.splits stream_outcome.splits stream_end.splits)

lemma download_keeps:
  assumes "cache_lookup am s u = Some p"
    and "ensure_download L c am w slug remote_url alt_text index = (w1, am1, r)"
  shows "cache_lookup am1 s u = Some p"
  using assms
  by (auto simp: ensure_download_def cache_lookup_def setdefault_def Let_def
      split: option.splits stream_outcome.splits stream_end.splits if_splits)

lemma later_manager_keeps:
  "later_manager L c am am' \<Longrightarrow> cache_lookup am s u = Some p \<Longrightarrow> cache_lookup am' s u = Some p"
  by (induction rule: later_manager.induct) (auto intro: download_keeps)

text \<open>
  C1. Once a call of \<^verbatim>\<open>ensure_download\<close> for an article and a URL has stored a path, any
  later call on the same manager for the same article and URL, whatever happened to the
  world and however many other downloads were made in between, returns that path with no
  warning and leaves the world as it is: no request is sent and no file is touched.
\<close>

theorem ensure_download_second_call:
  assumes first: "ensure_download L c am w slug remote_url alt_text index =
                    (w1, am1, Inr (Some p, None))"
    and later: "later_manager L c am1 am2"
  shows "ensure_download L c am2 w2 slug remote_url alt_text2 index2 =
           (w2, am2, Inr (Some p, None))"
proof -
  have "cache_lookup am1 slug remote_url = Some p"
    using first by (rule download_stores)
  then have "cache_lookup am2 slug remote_url = Some p"
    using later by (simp add: later_manager_keeps)
  then show ?thesis
    by (rule cache_hit)
qed

lemma trace_mkdir_parents [simp]: "trace (mkdir_parents p w) = trace w"
  by (simp add: mkdir_parents_def)

lemma free_candidate_char:
  "1 \<le> k \<Longrightarrow> c = nth_candidate d s e (k - 1) \<Longrightarrow>
   \<exists>n. k - 1 \<le> n \<and> free_candidate files d s e c k = nth_candidate d s e n
      \<and> (\<forall>j. k - 1 \<le> j \<and> j < n \<longrightarrow> path_exists files (nth_candidate d s e j))
      \<and> \<not> path_exists files (nth_candidate d s e n)"
proof (induction files d s e c k rule: free_candidate.induct)
  case (1 files d s e c k)
  show ?case
  proof (cases "path_exists files c")
    case False
    then have "free_candidate files d s e c k = c"
      by (subst free_candidate.simps) simp
    with False "1.prems" show ?thesis
      by (intro exI[of _ "k - 1"]) auto
  next
    case True
    have c': "numbered_name d s e k = nth_candidate d s e (Suc k - 1)"
      using "1.prems" by (simp add: nth_candidate_def)
    from "1.IH"[OF True _ c'] obtain n where n: "k \<le> n"
      "free_candidate files d s e (numbered_name d s e k) (Suc k) = nth_candidate d s e n"
      "\<forall>j. k \<le> j \<and> j < n \<longrightarrow> path_exists files (nth_candidate d s e j)"
      "\<not> path_exists files (nth_candidate d s e n)"
      by auto
    have "free_candidate files d s e c k = nth_candidate d s e n"
      using True n(2) by (subst free_candidate.simps) simp
    moreover have "\<forall>j. k - 1 \<le> j \<and> j < n \<longrightarrow> path_exists files (nth_candidate d s e j)"
    proof (intro allI impI)
      fix j assume j: "k - 1 \<le> j \<and> j < n"
      show "path_exists files (nth_candidate d s e j)"
      proof (cases "j = k - 1")
        case True
        with \<open>path_exists files c\<close> "1.prems" show ?thesis by simp
      next
        case False
        with j have "k \<le> j" by arith
        with j n(3) show ?thesis by simp
      qed
    qed
    ultimately show ?thesis
      using n(1,4) by (intro exI[of _ n]) auto
  qed
qed

lemma select_candidate_char:
  "\<exists>n. select_candidate L files d url alt idx
          = nth_candidate d (derived_stem alt idx) (derived_ext L url) n
      \<and> (\<forall>j<n. path_exists files (nth_candidate d (derived_stem alt idx) (derived_ext L url) j))
      \<and> \<not> path_exists files (nth_candidate d (derived_stem alt idx) (derived_ext L url) n)"
  using free_candidate_char[of 1 "base_name d (derived_stem alt idx) (derived_ext L url)"
          d "derived_stem alt idx" "derived_ext L url" files]
  by (auto simp: select_candidate_def nth_candidate_def)

lemma fold_mkdir_keeps:
  "map_of files q = Some e \<Longrightarrow>
   map_of (fold (\<lambda>q files. if path_exists files q then files else files @ [(q, Dir)]) ps files) q
     = Some e"
  by (induction ps arbitrary: files) (auto simp: path_exists_def)

lemma mkdir_parents_keeps:
  "map_of (fs w) q = Some e \<Longrightarrow> map_of (fs (mkdir_parents p w)) q = Some e"
  by (simp add: mkdir_parents_def fold_mkdir_keeps)

theorem ensure_download_second_call_witness:
  "ensure_download test_library site_client
     (fst (snd (ensure_download test_library site_client
        (fst (snd (ensure_download test_library site_client am0 world0
                     ''story'' ''https://site/a.png'' ''Cover'' 1)))
        (fst (ensure_download test_library site_client am0 world0
                     ''story'' ''https://site/a.png'' ''Cover'' 1))
        ''story'' ''https://site/b.png'' ''Map'' 2)))
     world0 ''story'' ''https://site/a.png'' ''Cover again'' 3
   = (world0,
      fst (snd (ensure_download test_library site_client
        (fst (snd (ensure_download test_library site_client am0 world0
                     ''story'' ''https://site/a.png'' ''Cover'' 1)))
        (fst (ensure_download test_library site_client am0 world0
                     ''story'' ''https://site/a.png'' ''Cover'' 1))
        ''story'' ''https://site/b.png'' ''Map'' 2)),
      Inr (Some [''assets'', ''story'', ''01_Cover.png''], None))
   \<and> trace (fst (download_images test_library site_client ''story'' [''output'', ''story'']
        [(''https://site/a.png'', ''Cover''), (''https://site/a.png'', ''Cover'')] 1
        world0 am0 Map.empty [] []))
     = [Stream ''https://site/a.png'' BASE_HEADERS]"
proof -
  let ?r = "ensure_download test_library site_client am0 world0
              ''story'' ''https://site/a.png'' ''Cover'' 1"
  let ?r2 = "ensure_download test_library site_client (fst (snd ?r)) (fst ?r)
              ''story'' ''https://site/b.png'' ''Map'' 2"
  have "snd (snd ?r) = Inr (Some [''assets'', ''story'', ''01_Cover.png''], None)"
    by (simp add: asset_eval)
  then have first: "?r = (fst ?r, fst (snd ?r),
                          Inr (Some [''assets'', ''story'', ''01_Cover.png''], None))"
    by (metis prod.collapse)
  have "?r2 = (fst ?r2, fst (snd ?r2), snd (snd ?r2))"
    by simp
  then have later: "later_manager test_library site_client (fst (snd ?r)) (fst (snd ?r2))"
    using later_manager.call[OF later_manager.same] by blast
  have loop: "trace (fst (download_images test_library site_client ''story''
        [''output'', ''story'']
        [(''https://site/a.png'', ''Cover''), (''https://site/a.png'', ''Cover'')] 1
        world0 am0 Map.empty [] []))
     = [Stream ''https://site/a.png'' BASE_HEADERS]"
    by (simp add: asset_eval str_truthy_def)
  show ?thesis
    using ensure_download_second_call[OF first later, of world0 "''Cover again''" 3] loop
    by simp
qed

lemma miss_cases:
  assumes "cache_lookup am slug remote_url = None"
  shows "(case setdefault (cache am) slug slug of Some m \<Rightarrow> m | None \<Rightarrow> Map.empty) remote_url
           = None"
  using assms by (auto simp: cache_lookup_def setdefault_def split: option.splits)

lemma lookup_setdefault:
  "cache_lookup (am\<lparr>cache := setdefault (cache am) slug\<rparr>) s u = cache_lookup am s u"
  by (auto simp: cache_lookup_def setdefault_def split: option.splits)

lemma failure_result:
  assumes miss: "cache_lookup am slug remote_url = None"
    and fails: "download_fails (on_stream c (trace w) remote_url BASE_HEADERS) exc"
  shows "snd (snd (ensure_download L c am w slug remote_url alt_text index))
           = Inr (None, Some (download_warning remote_url exc))"
    and "fst (snd (ensure_download L c am w slug remote_url alt_text index))
           = am\<lparr>cache := setdefault (cache am) slug\<rparr>"
  using fails miss_cases[OF miss]
  by (auto simp: ensure_download_def Let_def download_fails_def
      split: stream_outcome.splits stream_end.splits)

lemma miss_trace:
  assumes miss: "cache_lookup am slug remote_url = None"
  shows "trace (fst (ensure_download L c am w slug remote_url alt_text index))
           = trace w @ [Stream remote_url BASE_HEADERS]"
  using miss_cases[OF miss]
  by (auto simp: ensure_download_def Let_def emit_def write_file_def
      split: stream_outcome.splits stream_end.splits)

lemma cache_change_is_success:
  assumes "cache_lookup (fst (snd (ensure_download L c am w slug remote_url alt_text index))) s u
             \<noteq> cache_lookup am s u"
  shows "s = slug \<and> u = remote_url
       \<and> (\<exists>p. snd (snd (ensure_download L c am w slug remote_url alt_text index))
                  = Inr (Some p, None)
             \<and> cache_lookup (fst (snd (ensure_download L c am w slug remote_url alt_text index)))
                  s u = Some p)"
  using assms
  by (auto simp: ensure_download_def cache_lookup_def setdefault_def Let_def
      split: option.splits stream_outcome.splits stream_end.splits if_splits)

text \<open>
  C10. When the download of a URL that is not cached fails with a transport error, the call
  returns an absent path and a warning, and the cache, read as a mapping from (article, URL)
  pairs to paths, is as before: the dictionary of the article is created empty if it was
  missing and nothing else changes. A later call for the same pair therefore sends a fresh
  request. An entry enters the cache only with a successful download, as the path returned.
\<close>

theorem ensure_download_failure_not_cached:
  "(cache_lookup am slug remote_url = None
      \<and> download_fails (on_stream c (trace w) remote_url BASE_HEADERS) exc \<longrightarrow>
      (let r = ensure_download L c am w slug remote_url alt_text index; am1 = fst (snd r) in
         snd (snd r) = Inr (None, Some (download_warning remote_url exc))
       \<and> cache am1 = setdefault (cache am) slug
       \<and> (\<forall>s u. cache_lookup am1 s u = cache_lookup am s u)
       \<and> (\<forall>w2 alt2 idx2.
            trace (fst (ensure_download L c am1 w2 slug remote_url alt2 idx2))
              = trace w2 @ [Stream remote_url BASE_HEADERS])))
   \<and> (\<forall>s u. cache_lookup (fst (snd (ensure_download L c am w slug remote_url alt_text index)))
                s u \<noteq> cache_lookup am s u \<longrightarrow>
         s = slug \<and> u = remote_url
       \<and> (\<exists>p. snd (snd (ensure_download L c am w slug remote_url alt_text index))
                  = Inr (Some p, None)
             \<and> cache_lookup (fst (snd (ensure_download L c am w slug remote_url alt_text index)))
                  s u = Some p))"
proof (intro conjI impI allI)
  fix s u
  assume "cache_lookup (fst (snd (ensure_download L c am w slug remote_url alt_text index))) s u
            \<noteq> cache_lookup am s u"
  from cache_change_is_success[OF this]
  show "s = slug" "u = remote_url"
    "\<exists>p. snd (snd (ensure_download L c am w slug remote_url alt_text index)) = Inr (Some p, None)
        \<and> cache_lookup (fst (snd (ensure_download L c am w slug remote_url alt_text index))) s u
            = Some p"
    by blast+
next
  assume a: "cache_lookup am slug remote_url = None
      \<and> download_fails (on_stream c (trace w) remote_url BASE_HEADERS) exc"
  let ?am1 = "am\<lparr>cache := setdefault (cache am) slug\<rparr>"
  note res = failure_result[OF a[THEN conjunct1] a[THEN conjunct2], of L alt_text index]
  have still: "cache_lookup ?am1 slug remote_url = None"
    using a by (simp add: lookup_setdefault)
  show "let r = ensure_download L c am w slug remote_url alt_text index; am1 = fst (snd r) in
         snd (snd r) = Inr (None, Some (download_warning remote_url exc))
       \<and> cache am1 = setdefault (cache am) slug
       \<and> (\<forall>s u. cache_lookup am1 s u = cache_lookup am s u)
       \<and> (\<forall>w2 alt2 idx2.
            trace (fst (ensure_download L c am1 w2 slug remote_url alt2 idx2))
              = trace w2 @ [Stream remote_url BASE_HEADERS])"
    unfolding Let_def res
    using miss_trace[OF still] by (simp add: lookup_setdefault)
qed

theorem ensure_download_failure_not_cached_witness:
  "snd (snd (ensure_download test_library timeout_client am0 world0
               ''story'' ''https://site/a.png'' ''Cover'' 1))
     = Inr (None, Some (download_warning ''https://site/a.png'' ''timed out''))
   \<and> cache_lookup (fst (snd (ensure_download test_library timeout_client am0 world0
               ''story'' ''https://site/a.png'' ''Cover'' 1))) ''story'' ''https://site/a.png''
       = None
   \<and> trace (fst (ensure_download test_library timeout_client
        (fst (snd (ensure_download test_library timeout_client am0 world0
               ''story'' ''https://site/a.png'' ''Cover'' 1)))
        world0 ''story'' ''https://site/a.png'' ''Cover'' 1))
       = [Stream ''https://site/a.png'' BASE_HEADERS]
   \<and> snd (snd (ensure_download test_library site_client am0 world0
               ''story'' ''https://site/a.png'' ''Cover'' 1))
       = Inr (cache_lookup (fst (snd (ensure_download test_library site_client am0 world0
               ''story'' ''https://site/a.png'' ''Cover'' 1))) ''story'' ''https://site/a.png'',
              None)"
proof -
  have miss: "cache_lookup am0 ''story'' ''https://site/a.png'' = None"
    by (simp add: am0_def cache_lookup_def)
  have fails: "download_fails
      (on_stream timeout_client (trace world0) ''https://site/a.png'' BASE_HEADERS) ''timed out''"
    by (simp add: timeout_client_def download_fails_def)
  have t0: "trace world0 = []"
    by (simp add: world0_def)
  from ensure_download_failure_not_cached[of am0 "''story''" "''https://site/a.png''"
      timeout_client world0 "''timed out''" test_library "''Cover''" 1, THEN conjunct1]
    miss fails
  have "let r = ensure_download test_library timeout_client am0 world0
                  ''story'' ''https://site/a.png'' ''Cover'' 1;
            am1 = fst (snd r) in
         snd (snd r) = Inr (None, Some (download_warning ''https://site/a.png'' ''timed out''))
       \<and> cache am1 = setdefault (cache am0) ''story''
       \<and> (\<forall>s u. cache_lookup am1 s u = cache_lookup am0 s u)
       \<and> (\<forall>w2 alt2 idx2.
            trace (fst (ensure_download test_library timeout_client am1 w2
                          ''story'' ''https://site/a.png'' alt2 idx2))
              = trace w2 @ [Stream ''https://site/a.png'' BASE_HEADERS])"
    by blast
  then have failure: "snd (snd (ensure_download test_library timeout_client am0 world0
               ''story'' ''https://site/a.png'' ''Cover'' 1))
     = Inr (None, Some (download_warning ''https://site/a.png'' ''timed out''))
   \<and> cache_lookup (fst (snd (ensure_download test_library timeout_client am0 world0
               ''story'' ''https://site/a.png'' ''Cover'' 1))) ''story'' ''https://site/a.png''
       = None
   \<and> trace (fst (ensure_download test_library timeout_client
        (fst (snd (ensure_download test_library timeout_client am0 world0
               ''story'' ''https://site/a.png'' ''Cover'' 1)))
        world0 ''story'' ''https://site/a.png'' ''Cover'' 1))
       = [Stream ''https://site/a.png'' BASE_HEADERS]"
    unfolding Let_def using miss t0 by (metis append_Nil)
  let ?ok = "ensure_download test_library site_client am0 world0
               ''story'' ''https://site/a.png'' ''Cover'' 1"
  have changed: "cache_lookup (fst (snd ?ok)) ''story'' ''https://site/a.png''
                   \<noteq> cache_lookup am0 ''story'' ''https://site/a.png''"
    by (simp add: asset_eval cache_lookup_def)
  from ensure_download_failure_not_cached[of am0 "''story''" "''https://site/a.png''"
      site_client world0 _ test_library "''Cover''" 1, THEN conjunct2, rule_format, OF changed]
  obtain p where "snd (snd ?ok) = Inr (Some p, None)"
    and "cache_lookup (fst (snd ?ok)) ''story'' ''https://site/a.png'' = Some p"
    by blast
  then have "snd (snd ?ok)
       = Inr (cache_lookup (fst (snd ?ok)) ''story'' ''https://site/a.png'', None)"
    by simp
  with failure show ?thesis
    by blast
qed

lemma miss_success:
  assumes miss: "cache_lookup am slug remote_url = None"
    and ok: "snd (snd (ensure_download L c am w slug remote_url alt_text index))
               = Inr (Some p, None)"
  shows "p = select_candidate L (fs (mkdir_parents (base_dir am @ [slug]) w))
               (base_dir am @ [slug]) remote_url alt_text index"
    and "path_exists (fs (fst (ensure_download L c am w slug remote_url alt_text index))) p"
  using ok miss_cases[OF miss]
  by (auto simp: ensure_download_def Let_def emit_def write_file_def path_exists_def
      split: stream_outcome.splits stream_end.splits)

lemma select_candidate_free:
  "\<not> path_exists files (select_candidate L files d url alt idx)"
  by (simp add: select_candidate_def free_candidate_free)

lemma ensure_download_keeps_files:
  assumes "map_of (fs w) q = Some e"
  shows "map_of (fs (fst (ensure_download L c am w slug remote_url alt_text index))) q = Some e"
proof -
  let ?w1 = "mkdir_parents (base_dir am @ [slug]) w"
  let ?cand = "select_candidate L (fs ?w1) (base_dir am @ [slug]) remote_url alt_text index"
  have q: "map_of (fs ?w1) q = Some e"
    using assms by (rule mkdir_parents_keeps)
  have "\<not> path_exists (fs ?w1) ?cand"
    by (rule select_candidate_free)
  with q have "?cand \<noteq> q"
    by (auto simp: path_exists_def)
  with q assms show ?thesis
    by (auto simp: ensure_download_def Let_def emit_def write_file_def
        split: option.splits stream_outcome.splits stream_end.splits)
qed

text \<open>
  C9. On every call the name selected for writing is one the loop reached by trying the
  derived name \<^verbatim>\<open><2-digit index>_<sanitised alt><ext>\<close> and then the suffixes 1, 2, ... in
  order, every earlier one existing, and it does not exist when it is selected. Every entry
  of the file system that existed before the call is unchanged after it. A download on a
  cache miss that succeeds wrote exactly that name, and any later download on a cache miss
  that is made in the resulting state receives a different name.
\<close>

theorem ensure_download_never_overwrites:
  "(let slug_dir = base_dir am @ [slug];
        w1 = mkdir_parents slug_dir w;
        candidate = select_candidate L (fs w1) slug_dir remote_url alt_text index;
        r = ensure_download L c am w slug remote_url alt_text index
    in \<not> path_exists (fs w1) candidate
     \<and> (\<exists>n. candidate
               = nth_candidate slug_dir (derived_stem alt_text index) (derived_ext L remote_url) n
            \<and> (\<forall>j<n. path_exists (fs w1)
                  (nth_candidate slug_dir (derived_stem alt_text index)
                     (derived_ext L remote_url) j)))
     \<and> (\<forall>q e. map_of (fs w) q = Some e \<longrightarrow> map_of (fs (fst r)) q = Some e)
     \<and> (\<forall>p. cache_lookup am slug remote_url = None \<and> snd (snd r) = Inr (Some p, None) \<longrightarrow>
            p = candidate \<and> path_exists (fs (fst r)) p
          \<and> (\<forall>slug2 url2 alt2 idx2 p2.
                cache_lookup (fst (snd r)) slug2 url2 = None
              \<and> snd (snd (ensure_download L c (fst (snd r)) (fst r) slug2 url2 alt2 idx2))
                  = Inr (Some p2, None)
              \<longrightarrow> p2 \<noteq> p)))"
proof -
  let ?d = "base_dir am @ [slug]"
  let ?w1 = "mkdir_parents ?d w"
  let ?cand = "select_candidate L (fs ?w1) ?d remote_url alt_text index"
  let ?r = "ensure_download L c am w slug remote_url alt_text index"
  have free: "\<not> path_exists (fs ?w1) ?cand"
    by (rule select_candidate_free)
  have tried: "\<exists>n. ?cand
               = nth_candidate ?d (derived_stem alt_text index) (derived_ext L remote_url) n
            \<and> (\<forall>j<n. path_exists (fs ?w1)
                  (nth_candidate ?d (derived_stem alt_text index)
                     (derived_ext L remote_url) j))"
    using select_candidate_char[of L "fs ?w1" ?d remote_url alt_text index] by blast
  have kept: "\<forall>q e. map_of (fs w) q = Some e \<longrightarrow> map_of (fs (fst ?r)) q = Some e"
    by (simp add: ensure_download_keeps_files)
  have second: "p = ?cand \<and> path_exists (fs (fst ?r)) p
          \<and> (\<forall>slug2 url2 alt2 idx2 p2.
                cache_lookup (fst (snd ?r)) slug2 url2 = None
              \<and> snd (snd (ensure_download L c (fst (snd ?r)) (fst ?r) slug2 url2 alt2 idx2))
                  = Inr (Some p2, None)
              \<longrightarrow> p2 \<noteq> p)"
    if h: "cache_lookup am slug remote_url = None \<and> snd (snd ?r) = Inr (Some p, None)" for p
  proof (intro conjI allI impI)
    from h have m: "cache_lookup am slug remote_url = None"
      and ok: "snd (snd ?r) = Inr (Some p, None)"
      by simp_all
    show "p = ?cand"
      by (rule miss_success(1)[OF m ok])
    show there: "path_exists (fs (fst ?r)) p"
      by (rule miss_success(2)[OF m ok])
    fix slug2 url2 alt2 idx2 p2
    assume h2: "cache_lookup (fst (snd ?r)) slug2 url2 = None
              \<and> snd (snd (ensure_download L c (fst (snd ?r)) (fst ?r) slug2 url2 alt2 idx2))
                  = Inr (Some p2, None)"
    let ?w2 = "mkdir_parents (base_dir (fst (snd ?r)) @ [slug2]) (fst ?r)"
    from h2 have m2: "cache_lookup (fst (snd ?r)) slug2 url2 = None"
      and ok2: "snd (snd (ensure_download L c (fst (snd ?r)) (fst ?r) slug2 url2 alt2 idx2))
                  = Inr (Some p2, None)"
      by simp_all
    have "p2 = select_candidate L (fs ?w2) (base_dir (fst (snd ?r)) @ [slug2]) url2 alt2 idx2"
      by (rule miss_success(1)[OF m2 ok2])
    then have "\<not> path_exists (fs ?w2) p2"
      by (simp add: select_candidate_free)
    moreover have "path_exists (fs ?w2) p"
      using there mkdir_parents_keeps[of "fst ?r" p]
      by (auto simp: path_exists_def)
    ultimately show "p2 \<noteq> p"
      by auto
  qed
  show ?thesis
    unfolding Let_def using free tried kept second by blast
qed

theorem ensure_download_never_overwrites_witness:
  "snd (snd (ensure_download test_library site_client am0 world0
               ''story'' ''https://site/a.png'' ''Cover'' 1))
     = Inr (Some [''assets'', ''story'', ''01_Cover.png''], None)
   \<and> snd (snd (ensure_download test_library site_client
        (fst (snd (ensure_download test_library site_client am0 world0
                     ''story'' ''https://site/a.png'' ''Cover'' 1)))
        (fst (ensure_download test_library site_client am0 world0
                     ''story'' ''https://site/a.png'' ''Cover'' 1))
        ''story'' ''https://site/b.png'' ''Cover'' 1))
     = Inr (Some [''assets'', ''story'', ''01_Cover_1.png''], None)
   \<and> [''assets'', ''story'', ''01_Cover_1.png''] \<noteq> [''assets'', ''story'', ''01_Cover.png'']
   \<and> path_exists (fs (fst (ensure_download test_library site_client am0 world0
               ''story'' ''https://site/a.png'' ''Cover'' 1)))
         [''assets'', ''story'', ''01_Cover.png'']
   \<and> map_of (fs (fst (ensure_download test_library site_client
        (fst (snd (ensure_download test_library site_client am0 world0
                     ''story'' ''https://site/a.png'' ''Cover'' 1)))
        (fst (ensure_download test_library site_client am0 world0
                     ''story'' ''https://site/a.png'' ''Cover'' 1))
        ''story'' ''https://site/b.png'' ''Cover'' 1)))
         [''assets'', ''story'', ''01_Cover.png'']
       = Some (File ''PNGDATA'')"
proof -
  let ?r = "ensure_download test_library site_client am0 world0
              ''story'' ''https://site/a.png'' ''Cover'' 1"
  let ?r2 = "ensure_download test_library site_client (fst (snd ?r)) (fst ?r)
              ''story'' ''https://site/b.png'' ''Cover'' 1"
  have miss: "cache_lookup am0 ''story'' ''https://site/a.png'' = None"
    by (simp add: am0_def cache_lookup_def)
  have ok: "snd (snd ?r) = Inr (Some [''assets'', ''story'', ''01_Cover.png''], None)"
    by (simp add: asset_eval)
  have miss2: "cache_lookup (fst (snd ?r)) ''story'' ''https://site/b.png'' = None"
    by (simp add: asset_eval cache_lookup_def)
  have ok2: "snd (snd ?r2) = Inr (Some [''assets'', ''story'', ''01_Cover_1.png''], None)"
    by (simp add: asset_eval)
  note all = ensure_download_never_overwrites[of am0 "''story''" world0 test_library
      "''https://site/a.png''" "''Cover''" 1 site_client, unfolded Let_def]
  from all miss ok
  have here: "path_exists (fs (fst ?r)) [''assets'', ''story'', ''01_Cover.png'']"
    by blast
  from all miss ok miss2 ok2
  have "[''assets'', ''story'', ''01_Cover_1.png''] \<noteq> [''assets'', ''story'', ''01_Cover.png'']"
    by blast
  moreover have before: "map_of (fs (fst ?r)) [''assets'', ''story'', ''01_Cover.png'']
                  = Some (File ''PNGDATA'')"
    by (simp add: asset_eval)
  have "map_of (fs (fst ?r2)) [''assets'', ''story'', ''01_Cover.png'']
          = Some (File ''PNGDATA'')"
    using ensure_download_never_overwrites[of "fst (snd ?r)" "''story''" "fst ?r" test_library
      "''https://site/b.png''" "''Cover''" 1 site_client, unfolded Let_def] before
    by blast
  ultimately show ?thesis
    using ok ok2 here by blast
qed

section \<open>Properties of the orchestrator\<close>

text \<open>
  C5. When the fetch of the English page comes back without a document, \<^verbatim>\<open>scrape_article\<close>
  returns the empty list. Past the fetch it only prints: no further request is sent, no file
  is written and the asset manager is untouched, so no variant is processed.
\<close>

theorem scrape_article_without_english:
  assumes "fetch_html L c url ''en'' 3 (sleep_seconds S) w = (w1, Inr (en_html, en_warnings))"
    and "no_text en_html"
  shows "scrape_article S X L c w am url = (emit (Print (txt_no_english @ url)) w1, am, Inr [])
       \<and> gets_of (emit (Print (txt_no_english @ url)) w1) = gets_of w1
       \<and> fs (emit (Print (txt_no_english @ url)) w1) = fs w1"
  using assms
  by (simp add: scrape_article_def gets_of_def emit_def is_get_def)

lemma fs_fetch_attempts:
  "fs (fst (fetch_attempts c url hs m sl as w ws)) = fs w"
  by (induction as arbitrary: w ws) (auto simp: emit_def split: get_outcome.splits)

theorem scrape_article_without_english_witness:
  "scrape_article test_scraper (Markdownify id) test_library timeout_client world0 am0
      ''https://site/en/story''
   = (\<lparr>trace = [Get ''https://site/en/story'' (build_headers test_library ''en''), Sleep 1,
                Get ''https://site/en/story'' (build_headers test_library ''en''), Sleep 1,
                Get ''https://site/en/story'' (build_headers test_library ''en''), Sleep 1,
                Print (txt_no_english @ ''https://site/en/story'')], fs = []\<rparr>,
      am0, Inr [])"
proof -
  have f: "fetch_html test_library timeout_client ''https://site/en/story'' ''en'' 3
             (sleep_seconds test_scraper) world0
     = (\<lparr>trace = [Get ''https://site/en/story'' (build_headers test_library ''en''), Sleep 1,
                Get ''https://site/en/story'' (build_headers test_library ''en''), Sleep 1,
                Get ''https://site/en/story'' (build_headers test_library ''en''), Sleep 1], fs = []\<rparr>,
        Inr (None, [exception_warning ''timed out'' 1 3,
                    exception_warning ''timed out'' 2 3,
                    exception_warning ''timed out'' 3 3]))"
    by (simp add: fetch_html_def upto_1_3 timeout_client_def emit_def world0_def
        test_scraper_def)
  have n: "no_text None"
    by (simp add: no_text_def str_truthy_def)
  show ?thesis
    using scrape_article_without_english[OF f n, of "Markdownify id" am0]
    by (simp add: emit_def)
qed





definition test_extractor :: extractor where
  "test_extractor = Trafilatura (\<lambda>html url. Some ''Body ![Cover](https://site/a.png)'')"



lemma extract_article_meta_key:
  "extract_article_meta L tree lang_code lang_url = Inr m \<Longrightarrow>
   language m = lang_code \<and> source_url m = lang_url"
  by (auto simp: extract_article_meta_def finish_meta_def split: sum.splits)











lemma fetch_attempts_text_nonempty:
  "fetch_attempts c url hs m sl as w ws = (w1, Inr (Some t, ws1)) \<Longrightarrow> t \<noteq> []"
  by (induction as arbitrary: w ws) (auto split: get_outcome.splits if_splits)

lemma fetch_html_text_nonempty:
  "fetch_html L c url lang m sl w = (w1, Inr (Some t, ws1)) \<Longrightarrow> t \<noteq> []"
  by (auto simp: fetch_html_def dest: fetch_attempts_text_nonempty)










text \<open>
  C6. Let the English page of an article arrive and be processed into a record, let it name
  a Chinese variant, and let the page of that variant not arrive after its three attempts.
  Then \<^verbatim>\<open>scrape_article\<close> does not stop: it returns the English record followed by a record
  for the variant, which carries the placeholder title, an empty author and date, the
  variant's URL and language code, the path the file would have had, no assets, and the
  warnings of the three attempts followed by one naming the variant. \<^verbatim>\<open>run\<close> then appends
  both records to its results, sleeps and takes the next article. Inside an article the same
  holds at any place of the language plan: the record of a variant whose page does not
  arrive is appended and the loop goes on with the languages that remain.
\<close>

theorem failed_variant_is_recorded:
  assumes english: "fetch_html L c url ''en'' 3 (sleep_seconds S) w
                      = (w1, Inr (Some en_html, en_warnings))"
    and discovered: "zh_variant (extract_language_variants L (fromstring L en_html) url)
                      = Some zh_url"
    and named: "zh_url \<noteq> []"
    and processed: "process_variant S X L c (derive_slug L url) ''en'' url
                      (fromstring L en_html) en_html en_warnings w1 am
                      = (w2, am2, Inr en_result)"
    and fetch: "fetch_html L c zh_url ''zh-Hans'' 3 (sleep_seconds S) w2
                  = (w3, Inr (zh_html, zh_warnings))"
    and absent: "no_text zh_html"
  shows "scrape_article S X L c w am url
           = (mkdir_parents (output_root S @ [derive_slug L url]) w3, am2,
              Inr [en_result,
                   \<lparr>meta = \<lparr>title = PStr txt_fetch_failed, author = PStr [],
                              published = PStr [], source_url = zh_url,
                              language = ''zh-Hans''\<rparr>,
                    markdown_path = output_root S @ [derive_slug L url] @ [''zh-Hans.md''],
                    assets = [],
                    warnings = zh_warnings @ [unavailable_warning ''zh-Hans'' zh_url]\<rparr>])
       \<and> (\<forall>limit n urls idx w_in all_results.
              \<not> (case limit of Some l \<Rightarrow> idx > l | None \<Rightarrow> False)
            \<and> w = emit (Print (''[>] ('' @ str_int idx @ ''/'' @ str_nat n @ '') ''
                                  @ txt_processing @ '' '' @ url)) w_in
            \<longrightarrow> run_articles S X L c limit n (url # urls) idx w_in am all_results
                = run_articles S X L c limit n urls (idx + 1)
                    (emit (Sleep (sleep_seconds S))
                       (mkdir_parents (output_root S @ [derive_slug L url]) w3)) am2
                    (all_results
                       @ [en_result,
                          \<lparr>meta = \<lparr>title = PStr txt_fetch_failed, author = PStr [],
                                     published = PStr [], source_url = zh_url,
                                     language = ''zh-Hans''\<rparr>,
                           markdown_path
                             = output_root S @ [derive_slug L url] @ [''zh-Hans.md''],
                           assets = [],
                           warnings = zh_warnings
                                        @ [unavailable_warning ''zh-Hans'' zh_url]\<rparr>]))
       \<and> (\<forall>slug lang_code lang_url w_a w_b html_text new_warnings warnings0 rest am_a
             results.
              fetch_html L c lang_url lang_code 3 (sleep_seconds S) w_a
                = (w_b, Inr (html_text, new_warnings))
            \<and> no_text html_text
            \<longrightarrow> process_plan S X L c slug
                  ((lang_code, lang_url, None, None, warnings0) # rest) w_a am_a results
                = process_plan S X L c slug rest
                    (mkdir_parents (output_root S @ [slug]) w_b) am_a
                    (results
                       @ [\<lparr>meta = \<lparr>title = PStr txt_fetch_failed, author = PStr [],
                                      published = PStr [], source_url = lang_url,
                                      language = lang_code\<rparr>,
                            markdown_path = output_root S @ [slug] @ [lang_code @ ''.md''],
                            assets = [],
                            warnings = warnings0 @ new_warnings
                                         @ [unavailable_warning lang_code lang_url]\<rparr>]))"
proof (intro conjI allI impI)
  have nonempty: "en_html \<noteq> []"
    using english by (rule fetch_html_text_nonempty)
  have plan: "language_plan url (fromstring L en_html) en_html en_warnings
                (extract_language_variants L (fromstring L en_html) url)
              = [(''en'', url, Some (fromstring L en_html), Some en_html, en_warnings),
                 (''zh-Hans'', zh_url, None, None, [])]"
    using discovered named by (simp add: language_plan_def str_truthy_def)
  have en: "\<not> no_text (Some en_html)"
    using nonempty by (simp add: no_text_def str_truthy_def)
  show article: "scrape_article S X L c w am url
           = (mkdir_parents (output_root S @ [derive_slug L url]) w3, am2,
              Inr [en_result,
                   \<lparr>meta = \<lparr>title = PStr txt_fetch_failed, author = PStr [],
                              published = PStr [], source_url = zh_url,
                              language = ''zh-Hans''\<rparr>,
                    markdown_path = output_root S @ [derive_slug L url] @ [''zh-Hans.md''],
                    assets = [],
                    warnings = zh_warnings @ [unavailable_warning ''zh-Hans'' zh_url]\<rparr>])"
    using english processed fetch absent en
    by (simp add: scrape_article_def Let_def plan failed_result_def)
  fix limit :: "int option" and n urls idx w_in all_results
  assume "\<not> (case limit of Some l \<Rightarrow> idx > l | None \<Rightarrow> False)
            \<and> w = emit (Print (''[>] ('' @ str_int idx @ ''/'' @ str_nat n @ '') ''
                                  @ txt_processing @ '' '' @ url)) w_in"
  then show "run_articles S X L c limit n (url # urls) idx w_in am all_results
                = run_articles S X L c limit n urls (idx + 1)
                    (emit (Sleep (sleep_seconds S))
                       (mkdir_parents (output_root S @ [derive_slug L url]) w3)) am2
                    (all_results
                       @ [en_result,
                          \<lparr>meta = \<lparr>title = PStr txt_fetch_failed, author = PStr [],
                                     published = PStr [], source_url = zh_url,
                                     language = ''zh-Hans''\<rparr>,
                           markdown_path
                             = output_root S @ [derive_slug L url] @ [''zh-Hans.md''],
                           assets = [],
                           warnings = zh_warnings
                                        @ [unavailable_warning ''zh-Hans'' zh_url]\<rparr>])"
    using article by (simp add: Let_def)
next
  fix slug lang_code lang_url w_a w_b html_text new_warnings warnings0 rest am_a results
  assume "fetch_html L c lang_url lang_code 3 (sleep_seconds S) w_a
            = (w_b, Inr (html_text, new_warnings)) \<and> no_text html_text"
  then show "process_plan S X L c slug
                  ((lang_code, lang_url, None, None, warnings0) # rest) w_a am_a results
                = process_plan S X L c slug rest
                    (mkdir_parents (output_root S @ [slug]) w_b) am_a
                    (results
                       @ [\<lparr>meta = \<lparr>title = PStr txt_fetch_failed, author = PStr [],
                                      published = PStr [], source_url = lang_url,
                                      language = lang_code\<rparr>,
                            markdown_path = output_root S @ [slug] @ [lang_code @ ''.md''],
                            assets = [],
                            warnings = warnings0 @ new_warnings
                                         @ [unavailable_warning lang_code lang_url]\<rparr>])"
    by (simp add: failed_result_def)
qed

theorem failed_variant_is_recorded_witness:
  "snd (snd (scrape_article test_scraper test_extractor test_library zh_down_client
       (emit (Print (''[>] ('' @ str_int 1 @ ''/'' @ str_nat 2 @ '') '' @ txt_processing
                       @ '' '' @ ''https://site/en/story'')) world0)
       am0 ''https://site/en/story''))
     = Inr [\<lparr>meta = \<lparr>title = PStr ''Second'', author = PStr ''Ann'',
                      published = PStr ''2021-03-25'',
                      source_url = ''https://site/en/story'', language = ''en''\<rparr>,
             markdown_path = [''output'', ''story'', ''en.md''],
             assets = [[''assets'', ''story'', ''01_Cover.png''],
                       [''assets'', ''story'', ''01_Cover.png'']],
             warnings = []\<rparr>,
            \<lparr>meta = \<lparr>title = PStr txt_fetch_failed, author = PStr [], published = PStr [],
                      source_url = ''https://site/zh/story'', language = ''zh-Hans''\<rparr>,
             markdown_path = [''output'', ''story'', ''zh-Hans.md''],
             assets = [],
             warnings = [exception_warning ''timed out'' 1 3,
                         exception_warning ''timed out'' 2 3,
                         exception_warning ''timed out'' 3 3,
                         unavailable_warning ''zh-Hans'' ''https://site/zh/story'']\<rparr>]
   \<and> snd (snd (run_articles test_scraper test_extractor test_library zh_down_client None 2
                  [''https://site/en/story'', ''https://site/en/other''] 1 world0 am0 []))
     = Inr [\<lparr>meta = \<lparr>title = PStr ''Second'', author = PStr ''Ann'',
                      published = PStr ''2021-03-25'',
                      source_url = ''https://site/en/story'', language = ''en''\<rparr>,
             markdown_path = [''output'', ''story'', ''en.md''],
             assets = [[''assets'', ''story'', ''01_Cover.png''],
                       [''assets'', ''story'', ''01_Cover.png'']],
             warnings = []\<rparr>,
            \<lparr>meta = \<lparr>title = PStr txt_fetch_failed, author = PStr [], published = PStr [],
                      source_url = ''https://site/zh/story'', language = ''zh-Hans''\<rparr>,
             markdown_path = [''output'', ''story'', ''zh-Hans.md''],
             assets = [],
             warnings = [exception_warning ''timed out'' 1 3,
                         exception_warning ''timed out'' 2 3,
                         exception_warning ''timed out'' 3 3,
                         unavailable_warning ''zh-Hans'' ''https://site/zh/story'']\<rparr>]
   \<and> Get ''https://site/en/other'' (build_headers test_library ''en'')
       \<in> set (trace (fst (run_articles test_scraper test_extractor test_library zh_down_client
                  None 2 [''https://site/en/story'', ''https://site/en/other''] 1 world0 am0
                  [])))
   \<and> snd (snd (process_plan test_scraper test_extractor test_library zh_down_client ''story''
       [(''zh-Hans'', ''https://site/zh/story'', None, None, []),
        (''ja'', ''https://site/ja/story'', None, None, [])] world0 am0 []))
     = Inr [\<lparr>meta = \<lparr>title = PStr txt_fetch_failed, author = PStr [], published = PStr [],
                      source_url = ''https://site/zh/story'', language = ''zh-Hans''\<rparr>,
             markdown_path = [''output'', ''story'', ''zh-Hans.md''],
             assets = [],
             warnings = [exception_warning ''timed out'' 1 3,
                         exception_warning ''timed out'' 2 3,
                         exception_warning ''timed out'' 3 3,
                         unavailable_warning ''zh-Hans'' ''https://site/zh/story'']\<rparr>,
            \<lparr>meta = \<lparr>title = PStr txt_fetch_failed, author = PStr [], published = PStr [],
                      source_url = ''https://site/ja/story'', language = ''ja''\<rparr>,
             markdown_path = [''output'', ''story'', ''ja.md''],
             assets = [],
             warnings = [exception_warning ''timed out'' 1 3,
                         exception_warning ''timed out'' 2 3,
                         exception_warning ''timed out'' 3 3,
                         unavailable_warning ''ja'' ''https://site/ja/story'']\<rparr>]"
proof -
  let ?w = "emit (Print (''[>] ('' @ str_int 1 @ ''/'' @ str_nat 2 @ '') '' @ txt_processing
                           @ '' '' @ ''https://site/en/story'')) world0"
  let ?f = "fetch_html test_library zh_down_client ''https://site/en/story'' ''en'' 3
              (sleep_seconds test_scraper) ?w"
  let ?pv = "process_variant test_scraper test_extractor test_library zh_down_client
               (derive_slug test_library ''https://site/en/story'') ''en''
               ''https://site/en/story'' (fromstring test_library ''EN-PAGE'') ''EN-PAGE'' []
               (fst ?f) am0"
  let ?g = "fetch_html test_library zh_down_client ''https://site/zh/story'' ''zh-Hans'' 3
              (sleep_seconds test_scraper) (fst ?pv)"
  let ?en = "\<lparr>meta = \<lparr>title = PStr ''Second'', author = PStr ''Ann'',
                      published = PStr ''2021-03-25'',
                      source_url = ''https://site/en/story'', language = ''en''\<rparr>,
             markdown_path = [''output'', ''story'', ''en.md''],
             assets = [[''assets'', ''story'', ''01_Cover.png''],
                       [''assets'', ''story'', ''01_Cover.png'']],
             warnings = []\<rparr>"
  let ?ws = "[exception_warning ''timed out'' 1 3, exception_warning ''timed out'' 2 3,
              exception_warning ''timed out'' 3 3]"
  have "snd ?f = Inr (Some ''EN-PAGE'', [])"
    by code_simp
  then have english: "?f = (fst ?f, Inr (Some ''EN-PAGE'', []))"
    by (metis prod.collapse)
  have discovered: "zh_variant (extract_language_variants test_library
                       (fromstring test_library ''EN-PAGE'') ''https://site/en/story'')
                     = Some ''https://site/zh/story''"
    by code_simp
  have named: "''https://site/zh/story'' \<noteq> []"
    by simp
  have "snd (snd ?pv) = Inr ?en"
    by code_simp
  then have processed: "?pv = (fst ?pv, fst (snd ?pv), Inr ?en)"
    by (metis prod.collapse)
  have "snd ?g = Inr (None, ?ws)"
    by (simp add: fetch_html_def upto_1_3 zh_down_client_def emit_def test_scraper_def)
  then have fetch: "?g = (fst ?g, Inr (None, ?ws))"
    by (metis prod.collapse)
  have absent: "no_text None"
    by (simp add: no_text_def str_truthy_def)
  note all = failed_variant_is_recorded[OF english discovered named processed fetch absent]
  have slug: "derive_slug test_library ''https://site/en/story'' = ''story''"
    by code_simp
  have article: "snd (snd (scrape_article test_scraper test_extractor test_library
                   zh_down_client ?w am0 ''https://site/en/story''))
                 = Inr [?en, failed_result test_scraper ''story'' ''zh-Hans''
                          ''https://site/zh/story''
                          (?ws @ [unavailable_warning ''zh-Hans'' ''https://site/zh/story''])]"
    using all[THEN conjunct1] by (simp add: slug failed_result_def)
  have next_article:
    "snd (snd (run_articles test_scraper test_extractor test_library zh_down_client None 2
                 [''https://site/en/other''] 2 w_x am_x acc)) = Inr acc
     \<and> Get ''https://site/en/other'' (build_headers test_library ''en'')
         \<in> set (trace (fst (run_articles test_scraper test_extractor test_library
                    zh_down_client None 2 [''https://site/en/other''] 2 w_x am_x acc)))"
    for w_x am_x acc
    by (simp add: scrape_article_def fetch_html_def upto_1_3 zh_down_client_def
        no_text_def str_truthy_def emit_def Let_def)
  have "\<not> (case None :: int option of Some l \<Rightarrow> 1 > l | None \<Rightarrow> False) \<and> ?w = ?w"
    by simp
  from all[THEN conjunct2, THEN conjunct1, rule_format, OF this,
      where urls = "[''https://site/en/other'']" and all_results = "[]"]
  have both: "run_articles test_scraper test_extractor test_library zh_down_client None 2
                [''https://site/en/story'', ''https://site/en/other''] 1 world0 am0 []
              = run_articles test_scraper test_extractor test_library zh_down_client None 2
                  [''https://site/en/other''] 2
                  (emit (Sleep (sleep_seconds test_scraper))
                     (mkdir_parents (output_root test_scraper @ [''story'']) (fst ?g)))
                  (fst (snd ?pv))
                  [?en, failed_result test_scraper ''story'' ''zh-Hans''
                          ''https://site/zh/story''
                          (?ws @ [unavailable_warning ''zh-Hans'' ''https://site/zh/story''])]"
    by (simp add: slug failed_result_def del: run_articles.simps)
  have loop: "snd (snd (run_articles test_scraper test_extractor test_library zh_down_client
                 None 2 [''https://site/en/story'', ''https://site/en/other''] 1 world0 am0 []))
              = Inr [?en, failed_result test_scraper ''story'' ''zh-Hans''
                          ''https://site/zh/story''
                          (?ws @ [unavailable_warning ''zh-Hans'' ''https://site/zh/story''])]
          \<and> Get ''https://site/en/other'' (build_headers test_library ''en'')
              \<in> set (trace (fst (run_articles test_scraper test_extractor test_library
                    zh_down_client None 2
                    [''https://site/en/story'', ''https://site/en/other''] 1 world0 am0 [])))"
    unfolding both by (rule next_article)
  have down: "snd (fetch_html test_library zh_down_client u lang 3 (sleep_seconds test_scraper) w_x)
                = Inr (None, ?ws)" if "u \<noteq> ''https://site/en/story''" for u lang w_x
    using that
    by (simp add: fetch_html_def upto_1_3 zh_down_client_def emit_def test_scraper_def)
  have step: "process_plan test_scraper test_extractor test_library zh_down_client ''story''
                ((lang, u, None, None, []) # rest) w_x am_x results
              = process_plan test_scraper test_extractor test_library zh_down_client ''story''
                  rest
                  (mkdir_parents (output_root test_scraper @ [''story''])
                     (fst (fetch_html test_library zh_down_client u lang 3 (sleep_seconds test_scraper)
                        w_x)))
                  am_x
                  (results @ [failed_result test_scraper ''story'' lang u
                                (?ws @ [unavailable_warning lang u])])"
    if "u \<noteq> ''https://site/en/story''" for lang u rest w_x am_x results
  proof -
    let ?h = "fetch_html test_library zh_down_client u lang 3 (sleep_seconds test_scraper) w_x"
    have "?h = (fst ?h, Inr (None, ?ws)) \<and> no_text None"
      using down[OF that, of lang w_x] absent by (metis prod.collapse)
    from all[THEN conjunct2, THEN conjunct2, rule_format, OF this]
    show ?thesis
      by (simp add: failed_result_def)
  qed
  have finished: "snd (snd (process_plan test_scraper test_extractor test_library
                    zh_down_client ''story'' [] w_x am_x results)) = Inr results"
    for w_x am_x results
    by simp
  have plan: "snd (snd (process_plan test_scraper test_extractor test_library zh_down_client
       ''story''
       [(''zh-Hans'', ''https://site/zh/story'', None, None, []),
        (''ja'', ''https://site/ja/story'', None, None, [])] world0 am0 []))
     = Inr [failed_result test_scraper ''story'' ''zh-Hans'' ''https://site/zh/story''
              (?ws @ [unavailable_warning ''zh-Hans'' ''https://site/zh/story'']),
            failed_result test_scraper ''story'' ''ja'' ''https://site/ja/story''
              (?ws @ [unavailable_warning ''ja'' ''https://site/ja/story''])]"
    by (simp add: step finished del: process_plan.simps)
  show ?thesis
    using article loop plan
    by (simp add: failed_result_def test_scraper_def)
qed

section \<open>Properties of the metadata extractor\<close>

text \<open>
  The items the two loops visit, in order; the value an item offers for a field; and the last
  value offered along a list.
\<close>

definition all_candidates :: "library \<Rightarrow> string list \<Rightarrow> pyval list" where
  "all_candidates L blocks =
     concat (map (\<lambda>b. case json_loads L b of None \<Rightarrow> [] | Some data \<Rightarrow> candidates data) blocks)"

definition article_item :: "(string \<times> pyval) list \<Rightarrow> bool" where
  "article_item d = (dict_get d ''@type'' \<in> set article_types)"

definition field_of :: "string \<Rightarrow> pyval \<Rightarrow> pyval option" where
  "field_of key item =
     (case item of
        PDict d \<Rightarrow> if article_item d \<and> truthy (dict_get d key) then Some (dict_get d key)
                   else None
      | _ \<Rightarrow> None)"

definition author_names :: "pyval list \<Rightarrow> pyval list" where
  "author_names author_data =
     map (\<lambda>a. case a of PDict d \<Rightarrow> dict_get d ''name'' | _ \<Rightarrow> PNone) (filter is_dict author_data)"

definition author_of :: "pyval \<Rightarrow> pyval option" where
  "author_of item =
     (case item of
        PDict d \<Rightarrow>
          if article_item d then
            (case dict_get d ''author'' of
               PList author_data \<Rightarrow>
                 (case join_names (author_names author_data) of
                    Inr joined \<Rightarrow> if joined \<noteq> [] then Some (PStr joined) else None
                  | Inl _ \<Rightarrow> None)
             | PDict author_data \<Rightarrow> map_of author_data ''name''
             | _ \<Rightarrow> None)
          else None
      | _ \<Rightarrow> None)"

definition last_match :: "('a \<Rightarrow> 'b option) \<Rightarrow> 'a list \<Rightarrow> 'b option" where
  "last_match f xs = (case rev (List.map_filter f xs) of [] \<Rightarrow> None | v # _ \<Rightarrow> Some v)"

definition scan_safe :: "pyval \<Rightarrow> bool" where
  "scan_safe item =
     (case item of
        PDict d \<Rightarrow>
          \<not> unhashable (dict_get d ''@type'')
          \<and> (article_item d \<longrightarrow>
               (case dict_get d ''author'' of
                  PList author_data \<Rightarrow> \<not> isl (join_names (author_names author_data))
                | _ \<Rightarrow> True))
      | _ \<Rightarrow> True)"

lemma last_match_Nil [simp]: "last_match f [] = None"
  by (simp add: last_match_def map_filter_simps)

lemma last_match_Cons:
  "last_match f (x # xs) = (case last_match f xs of Some v \<Rightarrow> Some v | None \<Rightarrow> f x)"
  by (cases "f x"; cases "rev (List.map_filter f xs)")
     (simp_all add: last_match_def map_filter_simps)

lemma scan_items_append:
  "scan_items st (xs @ ys) =
     (case scan_items st xs of Inl e \<Rightarrow> Inl e | Inr st1 \<Rightarrow> scan_items st1 ys)"
  by (induction xs arbitrary: st) (auto split: pyval.splits sum.splits)

lemma scan_blocks_flat: "scan_blocks L st blocks = scan_items st (all_candidates L blocks)"
  by (induction blocks arbitrary: st)
     (auto simp: all_candidates_def scan_items_append split: option.splits sum.splits)

lemma scan_item_effect:
  assumes "scan_item st d = Inr st1"
  shows "f_title st1 = (case field_of ''headline'' (PDict d) of Some v \<Rightarrow> v | None \<Rightarrow> f_title st)"
    and "f_published st1
           = (case field_of ''datePublished'' (PDict d) of Some v \<Rightarrow> v | None \<Rightarrow> f_published st)"
    and "f_author st1 = (case author_of (PDict d) of Some v \<Rightarrow> v | None \<Rightarrow> f_author st)"
  using assms
  by (auto simp: scan_item_def field_of_def author_of_def article_item_def py_or_def Let_def
      author_names_def split: if_splits pyval.splits sum.splits option.splits)

lemma scan_items_effect:
  "scan_items st items = Inr st' \<Longrightarrow>
   f_title st' = (case last_match (field_of ''headline'') items of
                    Some v \<Rightarrow> v | None \<Rightarrow> f_title st)
   \<and> f_published st' = (case last_match (field_of ''datePublished'') items of
                    Some v \<Rightarrow> v | None \<Rightarrow> f_published st)
   \<and> f_author st' = (case last_match author_of items of Some v \<Rightarrow> v | None \<Rightarrow> f_author st)"
proof (induction items arbitrary: st)
  case Nil
  then show ?case by simp
next
  case (Cons item items)
  show ?case
  proof (cases "is_dict item")
    case False
    then have skip: "scan_items st (item # items) = scan_items st items"
      by (cases item) (simp_all add: is_dict_def)
    have none: "field_of k item = None" "author_of item = None" for k
      using False by (cases item; simp add: is_dict_def field_of_def author_of_def)+
    from Cons.IH[of st] Cons.prems skip show ?thesis
      by (simp add: last_match_Cons none split: option.splits)
  next
    case True
    then obtain d where d: "item = PDict d"
      by (cases item) (simp_all add: is_dict_def)
    from Cons.prems d obtain st1 where s1: "scan_item st d = Inr st1"
      and rest: "scan_items st1 items = Inr st'"
      by (auto split: sum.splits)
    from Cons.IH[OF rest] scan_item_effect[OF s1] show ?thesis
      by (simp add: last_match_Cons d split: option.splits)
  qed
qed

lemma scan_item_safe:
  "scan_safe (PDict d) \<Longrightarrow> \<not> isl (scan_item st d)"
  by (auto simp: scan_safe_def scan_item_def article_item_def author_names_def Let_def
      split: pyval.splits sum.splits)

lemma scan_items_safe:
  "list_all scan_safe items \<Longrightarrow> \<not> isl (scan_items st items)"
proof (induction items arbitrary: st)
  case Nil
  then show ?case by simp
next
  case (Cons item items)
  show ?case
  proof (cases item)
    case (PDict d)
    then have "\<not> isl (scan_item st d)"
      using Cons.prems scan_item_safe by simp
    then obtain st1 where "scan_item st d = Inr st1"
      by (metis sum.collapse(2))
    then show ?thesis
      using Cons PDict by simp
  qed (use Cons in simp_all)
qed

lemma last_match_Some:
  "last_match f xs = Some v \<Longrightarrow> \<exists>x \<in> set xs. f x = Some v"
  by (induction xs) (auto simp: last_match_Cons split: option.splits)

lemma field_of_truthy: "field_of k item = Some v \<Longrightarrow> truthy v"
  by (auto simp: field_of_def split: pyval.splits if_splits)

lemma last_field_truthy: "last_match (field_of k) items = Some v \<Longrightarrow> truthy v"
  using last_match_Some field_of_truthy by fastforce

text \<open>
  \<^verbatim>\<open>extract_article_meta\<close> scans every dictionary of every JSON-LD block in document
  order. The title is the last non-empty headline of an article-type item, the date the last
  non-empty \<^verbatim>\<open>datePublished\<close>, and the author the last author value (the joined names of
  a list, or the name of a dictionary) when that value is not empty. In particular, of two
  article-type blocks with non-empty titles the title of the second is returned. The
  extraction returns whenever no item has a list or dictionary as its type and the names of
  an author list are strings.
\<close>

theorem extract_article_meta_last_wins:
  "(list_all scan_safe (all_candidates L (ld_json_blocks tree)) \<longrightarrow>
      \<not> isl (extract_article_meta L tree language_code url))
   \<and> (\<forall>m. extract_article_meta L tree language_code url = Inr m \<longrightarrow>
        (\<forall>v. last_match (field_of ''headline'') (all_candidates L (ld_json_blocks tree)) = Some v
              \<longrightarrow> title m = v)
      \<and> (\<forall>v. last_match (field_of ''datePublished'') (all_candidates L (ld_json_blocks tree))
                = Some v \<longrightarrow> published m = v)
      \<and> (\<forall>v. last_match author_of (all_candidates L (ld_json_blocks tree)) = Some v \<and> truthy v
              \<longrightarrow> author m = v)
      \<and> (\<forall>b1 b2 d1 d2 t1 t2.
            ld_json_blocks tree = [b1, b2]
          \<and> json_loads L b1 = Some (PDict d1) \<and> json_loads L b2 = Some (PDict d2)
          \<and> article_item d1 \<and> article_item d2
          \<and> dict_get d1 ''headline'' = PStr t1 \<and> dict_get d2 ''headline'' = PStr t2
          \<and> t1 \<noteq> [] \<and> t2 \<noteq> []
          \<longrightarrow> title m = PStr t2))"
proof (intro conjI impI allI)
  let ?st0 = "\<lparr>f_title = PStr [], f_author = PStr [], f_published = PStr []\<rparr>"
  let ?items = "all_candidates L (ld_json_blocks tree)"
  {
    assume "list_all scan_safe ?items"
    then have "\<not> isl (scan_items ?st0 ?items)"
      by (rule scan_items_safe)
    then show "\<not> isl (extract_article_meta L tree language_code url)"
      by (cases "scan_items ?st0 ?items")
         (simp_all add: extract_article_meta_def scan_blocks_flat)
  }
  fix m
  assume ok: "extract_article_meta L tree language_code url = Inr m"
  then obtain st where st: "scan_items ?st0 ?items = Inr st"
    and m: "m = finish_meta st tree language_code url"
    by (auto simp: extract_article_meta_def scan_blocks_flat split: sum.splits)
  note eff = scan_items_effect[OF st]
  have t: "title m = v" if "last_match (field_of ''headline'') ?items = Some v" for v
    using that eff last_field_truthy[OF that]
    by (simp add: m finish_meta_def fallback_field_def py_or_def)
  {
    fix v
    assume "last_match (field_of ''headline'') ?items = Some v"
    then show "title m = v" by (rule t)
  }
  {
    fix v
    assume p: "last_match (field_of ''datePublished'') ?items = Some v"
    show "published m = v"
      using p eff last_field_truthy[OF p]
      by (simp add: m finish_meta_def fallback_field_def)
  }
  {
    fix v
    assume "last_match author_of ?items = Some v \<and> truthy v"
    then show "author m = v"
      using eff by (simp add: m finish_meta_def fallback_field_def py_or_def)
  }
  {
    fix b1 b2 d1 d2 t1 t2
    assume h: "ld_json_blocks tree = [b1, b2]
          \<and> json_loads L b1 = Some (PDict d1) \<and> json_loads L b2 = Some (PDict d2)
          \<and> article_item d1 \<and> article_item d2
          \<and> dict_get d1 ''headline'' = PStr t1 \<and> dict_get d2 ''headline'' = PStr t2
          \<and> t1 \<noteq> [] \<and> t2 \<noteq> []"
    then have "?items = [PDict d1, PDict d2]"
      by (simp add: all_candidates_def candidates_def)
    with h have "last_match (field_of ''headline'') ?items = Some (PStr t2)"
      by (simp add: last_match_Cons field_of_def)
    then show "title m = PStr t2" by (rule t)
  }
qed

theorem extract_article_meta_last_wins_witness:
  "ld_json_blocks page_en = [''LD1'', ''LD2'']
   \<and> extract_article_meta test_library page_en ''en'' ''https://site/en/story''
       = Inr \<lparr>title = PStr ''Second'', author = PStr ''Ann'', published = PStr ''2021-03-25'',
              source_url = ''https://site/en/story'', language = ''en''\<rparr>"
proof -
  let ?r = "extract_article_meta test_library page_en ''en'' ''https://site/en/story''"
  let ?d1 = "[(''@type'', PStr ''Article''), (''headline'', PStr ''First''),
              (''datePublished'', PStr ''2021-03-25''),
              (''author'', PDict [(''name'', PStr ''Ann'')])]"
  let ?d2 = "[(''@type'', PStr ''NewsArticle''), (''headline'', PStr ''Second'')]"
  note all = extract_article_meta_last_wins[of test_library page_en "''en''"
      "''https://site/en/story''"]
  have blocks: "ld_json_blocks page_en = [''LD1'', ''LD2'']"
    by (simp add: ld_json_blocks_def page_en_def is_ld_json_def tag_of_def attr_def
        text_children_def)
  have items: "all_candidates test_library (ld_json_blocks page_en) = [PDict ?d1, PDict ?d2]"
    by (simp add: blocks all_candidates_def candidates_def test_library_def
        test_json_loads_def)
  have safe: "list_all scan_safe (all_candidates test_library (ld_json_blocks page_en))"
    by (simp add: items scan_safe_def unhashable_def dict_get_def article_item_def
        article_types_def)
  have "\<not> isl ?r"
    using all safe by blast
  then have r: "?r = Inr (projr ?r)"
    by simp
  have two: "ld_json_blocks page_en = [''LD1'', ''LD2'']
      \<and> json_loads test_library ''LD1'' = Some (PDict ?d1)
      \<and> json_loads test_library ''LD2'' = Some (PDict ?d2)
      \<and> article_item ?d1 \<and> article_item ?d2
      \<and> dict_get ?d1 ''headline'' = PStr ''First''
      \<and> dict_get ?d2 ''headline'' = PStr ''Second''
      \<and> ''First'' \<noteq> [] \<and> ''Second'' \<noteq> []"
    by (simp add: blocks test_library_def test_json_loads_def article_item_def
        article_types_def dict_get_def)
  have t: "title (projr ?r) = PStr ''Second''"
    using all[THEN conjunct2, rule_format, OF r, THEN conjunct2, THEN conjunct2,
        THEN conjunct2, rule_format, OF two] .
  have "last_match (field_of ''datePublished'')
          (all_candidates test_library (ld_json_blocks page_en)) = Some (PStr ''2021-03-25'')"
    by (simp add: items last_match_Cons field_of_def article_item_def article_types_def
        dict_get_def)
  then have p: "published (projr ?r) = PStr ''2021-03-25''"
    using all r by blast
  have "last_match author_of (all_candidates test_library (ld_json_blocks page_en))
          = Some (PStr ''Ann'') \<and> truthy (PStr ''Ann'')"
    by (simp add: items last_match_Cons author_of_def article_item_def article_types_def
        dict_get_def)
  then have a: "author (projr ?r) = PStr ''Ann''"
    using all r by blast
  have "source_url (projr ?r) = ''https://site/en/story'' \<and> language (projr ?r) = ''en''"
    using r extract_article_meta_key by metis
  with t p a have "projr ?r = \<lparr>title = PStr ''Second'', author = PStr ''Ann'',
      published = PStr ''2021-03-25'', source_url = ''https://site/en/story'',
      language = ''en''\<rparr>"
    by (cases "projr ?r") simp
  with r blocks show ?thesis
    by simp
qed

lemma extract_article_meta_author_reset:
  assumes "extract_article_meta L tree language_code url = Inr m"
    and "last_match author_of (all_candidates L (ld_json_blocks tree)) = Some v"
    and "\<not> truthy v"
  shows "author m
           = py_or (PStr (strip (xpath_string (\<lambda>n. attr n ''data-testid'' = Some ''byline-name'')
                                   tree)))
               (PStr txt_unknown_author)"
proof -
  let ?st0 = "\<lparr>f_title = PStr [], f_author = PStr [], f_published = PStr []\<rparr>"
  obtain st where st: "scan_items ?st0 (all_candidates L (ld_json_blocks tree)) = Inr st"
    and m: "m = finish_meta st tree language_code url"
    using assms(1) by (auto simp: extract_article_meta_def scan_blocks_flat split: sum.splits)
  have "f_author st = v"
    using scan_items_effect[OF st] assms(2) by simp
  then show ?thesis
    using assms(3) by (simp add: m finish_meta_def fallback_field_def)
qed

text \<open>
  C7. For the title and the date the last non-empty value of an article-type item wins, and
  so does the author as long as the last author value is not empty. The author line of a
  dictionary differs from its three sibling lines: they keep the earlier value when the new
  one is empty (\<^verbatim>\<open>or\<close>), it keeps the earlier value only when the key \<^verbatim>\<open>name\<close> is missing
  (\<^verbatim>\<open>get\<close> with a default). So a later article block whose author dictionary has a null
  or empty name erases the author found before it, and the result is the byline of the page
  or the placeholder. On a page without byline whose blocks are an article by Ann followed
  by an article whose author has a null name, the author returned is the placeholder and
  not Ann; the same with an empty name; a later author list without names keeps Ann.
\<close>

theorem extract_article_meta_author_overwritten:
  "extract_article_meta author_library (page_blocks [''ANN'']) ''en'' ''https://site/en/story''
     = Inr \<lparr>title = PStr ''First'', author = PStr ''Ann'', published = PStr [],
            source_url = ''https://site/en/story'', language = ''en''\<rparr>
   \<and> extract_article_meta author_library (page_blocks [''ANN'', ''NULL-NAME'']) ''en''
       ''https://site/en/story''
     = Inr \<lparr>title = PStr ''First'', author = PStr txt_unknown_author, published = PStr [],
            source_url = ''https://site/en/story'', language = ''en''\<rparr>
   \<and> extract_article_meta author_library (page_blocks [''ANN'', ''EMPTY-NAME'']) ''en''
       ''https://site/en/story''
     = Inr \<lparr>title = PStr ''First'', author = PStr txt_unknown_author, published = PStr [],
            source_url = ''https://site/en/story'', language = ''en''\<rparr>
   \<and> extract_article_meta author_library (page_blocks [''ANN'', ''NO-NAMES'']) ''en''
       ''https://site/en/story''
     = Inr \<lparr>title = PStr ''First'', author = PStr ''Ann'', published = PStr [],
            source_url = ''https://site/en/story'', language = ''en''\<rparr>"
proof -
  have blocks: "ld_json_blocks (page_blocks bs) = bs" for bs
    by (induction bs)
       (simp_all add: page_blocks_def ld_json_blocks_def is_ld_json_def tag_of_def attr_def
          text_children_def)
  have byline: "xpath_string (\<lambda>n. attr n ''data-testid'' = Some k) (page_blocks bs) = []"
    for k bs
    by (induction bs) (simp_all add: page_blocks_def xpath_string_def attr_def)
  have alone: "scan_blocks author_library
                 \<lparr>f_title = PStr [], f_author = PStr [], f_published = PStr []\<rparr> [''ANN'']
               = Inr \<lparr>f_title = PStr ''First'', f_author = PStr ''Ann'', f_published = PStr []\<rparr>"
    by code_simp
  have reset: "scan_blocks author_library
                 \<lparr>f_title = PStr [], f_author = PStr [], f_published = PStr []\<rparr>
                 [''ANN'', ''NULL-NAME'']
               = Inr \<lparr>f_title = PStr ''First'', f_author = PNone, f_published = PStr []\<rparr>"
    by code_simp
  have emptied: "scan_blocks author_library
                   \<lparr>f_title = PStr [], f_author = PStr [], f_published = PStr []\<rparr>
                   [''ANN'', ''EMPTY-NAME'']
                 = Inr \<lparr>f_title = PStr ''First'', f_author = PStr [], f_published = PStr []\<rparr>"
    by code_simp
  have kept: "scan_blocks author_library
                \<lparr>f_title = PStr [], f_author = PStr [], f_published = PStr []\<rparr>
                [''ANN'', ''NO-NAMES'']
              = Inr \<lparr>f_title = PStr ''First'', f_author = PStr ''Ann'', f_published = PStr []\<rparr>"
    by code_simp
  have stripped: "strip [] = []"
    by code_simp
  show ?thesis
    by (simp add: extract_article_meta_def blocks alone reset emptied kept finish_meta_def
        fallback_field_def byline stripped py_or_def del: scan_blocks.simps)
qed

section \<open>Properties of the content extractor\<close>

lemma sublist_concat_member: "x \<in> set xs \<Longrightarrow> sublist x (concat xs)"
proof (induction xs)
  case Nil
  then show ?case by simp
next
  case (Cons y ys)
  show ?case
  proof (cases "x = y")
    case True
    then show ?thesis by simp
  next
    case False
    with Cons have "sublist x (concat ys)" by simp
    then show ?thesis
      by (metis concat.simps(2) sublist_append)
  qed
qed

text \<open>
  C2 (amended). Where markdownify is the converter (trafilatura is not installed),
  \<^verbatim>\<open>html_to_markdown\<close> converts one fragment: the serialisations, concatenated in document
  order, of all elements that are an \<^verbatim>\<open><article>\<close>, a \<^verbatim>\<open><main>\<close> or flagged as the article
  component, and the serialisation of the whole page when there is none. Every such element
  of the page is in the fragment, so a page with an \<^verbatim>\<open><article>\<close> and a \<^verbatim>\<open><main>\<close> contributes
  both. Where trafilatura is installed and extracts a non-empty text, that text is returned.
\<close>

theorem html_to_markdown_fallback:
  "html_to_markdown (Markdownify md) L html_text url
     = Inr (md (html_fragment L (fromstring L html_text)))
   \<and> html_fragment L tree
       = (if \<exists>n \<in> set (descendants tree). is_main_container n
          then concat (map (tostring L) (filter is_main_container (descendants tree)))
          else tostring L tree)
   \<and> (\<forall>n \<in> set (descendants tree).
         tag_of n = ''article'' \<or> tag_of n = ''main''
           \<or> attr n ''data-component'' = Some ''Article''
         \<longrightarrow> is_main_container n \<and> sublist (tostring L n) (html_fragment L tree))
   \<and> (\<forall>primary result. primary html_text url = Some result \<and> result \<noteq> [] \<longrightarrow>
         html_to_markdown (Trafilatura primary) L html_text url = Inr result)"
proof (intro conjI ballI impI allI)
  show "html_to_markdown (Markdownify md) L html_text url
          = Inr (md (html_fragment L (fromstring L html_text)))"
    by (simp add: html_to_markdown_def markdown_fallback_def)
  show "html_fragment L tree
       = (if \<exists>n \<in> set (descendants tree). is_main_container n
          then concat (map (tostring L) (filter is_main_container (descendants tree)))
          else tostring L tree)"
    by (auto simp: html_fragment_def Let_def filter_empty_conv)
next
  fix n
  assume n: "n \<in> set (descendants tree)"
    and m: "tag_of n = ''article'' \<or> tag_of n = ''main''
           \<or> attr n ''data-component'' = Some ''Article''"
  from m show c: "is_main_container n"
    by (cases n) (auto simp: is_main_container_def tag_of_def attr_def)
  with n have "n \<in> set (filter is_main_container (descendants tree))"
    by simp
  then have "tostring L n \<in> set (map (tostring L) (filter is_main_container (descendants tree)))"
    by simp
  then have "sublist (tostring L n)
      (concat (map (tostring L) (filter is_main_container (descendants tree))))"
    by (rule sublist_concat_member)
  moreover have "filter is_main_container (descendants tree) \<noteq> []"
    using n c by (auto simp: filter_empty_conv)
  ultimately show "sublist (tostring L n) (html_fragment L tree)"
    by (simp add: html_fragment_def Let_def)
next
  fix primary :: "string \<Rightarrow> string \<Rightarrow> string option" and result
  assume "primary html_text url = Some result \<and> result \<noteq> []"
  then show "html_to_markdown (Trafilatura primary) L html_text url = Inr result"
    by (simp add: html_to_markdown_def)
qed

lemmas page_plain_eval = html_to_markdown_def markdown_fallback_def html_fragment_def
  test_library_def test_fromstring_def page_plain_def is_main_container_def Let_def

text \<open>
  The claim as written takes the first container only. A page with a \<^verbatim>\<open><main>\<close> and an
  \<^verbatim>\<open><article>\<close> is converted from both, not from the article alone.
\<close>

theorem html_to_markdown_uses_main_too:
  "Element ''article'' [] [Element ''h1'' [] [Text ''Plain''], Text ''A'']
       \<in> set (descendants (fromstring test_library ''PLAIN-PAGE''))
   \<and> Element ''main'' [] [Text ''M'']
       \<in> set (descendants (fromstring test_library ''PLAIN-PAGE''))
   \<and> html_to_markdown (Markdownify id) test_library ''PLAIN-PAGE'' ''https://site/en/plain''
     = Inr ''<main>M</main><article><h1>Plain</h1>A</article>''
   \<and> html_to_markdown (Markdownify id) test_library ''PLAIN-PAGE'' ''https://site/en/plain''
     \<noteq> Inr (id (tostring test_library
               (Element ''article'' [] [Element ''h1'' [] [Text ''Plain''], Text ''A''])))"
  by (simp add: page_plain_eval)

text \<open>
  Where trafilatura is installed and extracts nothing, the fallback reaches the call of
  \<^verbatim>\<open>md\<close>, a name the module has not bound.
\<close>

lemma html_to_markdown_name_error:
  "html_to_markdown (Trafilatura (\<lambda>html url. None)) L html_text url = Inl NameError"
  by (simp add: html_to_markdown_def markdown_fallback_def)

theorem html_to_markdown_fallback_witness:
  "sublist ''<main>M</main>''
     (html_fragment test_library (fromstring test_library ''PLAIN-PAGE''))
   \<and> sublist ''<article><h1>Plain</h1>A</article>''
     (html_fragment test_library (fromstring test_library ''PLAIN-PAGE''))
   \<and> html_to_markdown
       (Trafilatura (\<lambda>html url. Some ''Body ![Cover](https://site/a.png)''))
       test_library ''EN-PAGE'' ''https://site/en/story''
     = Inr ''Body ![Cover](https://site/a.png)''"
proof -
  let ?tree = "fromstring test_library ''PLAIN-PAGE''"
  let ?main = "Element ''main'' [] [Text ''M'']"
  let ?article = "Element ''article'' [] [Element ''h1'' [] [Text ''Plain''], Text ''A'']"
  note all = html_to_markdown_fallback[of id test_library "''PLAIN-PAGE''"
      "''https://site/en/plain''" ?tree, THEN conjunct2, THEN conjunct2, THEN conjunct1]
  have m: "?main \<in> set (descendants ?tree)" and a: "?article \<in> set (descendants ?tree)"
    by (simp_all add: test_library_def test_fromstring_def page_plain_def)
  have "sublist (tostring test_library ?main) (html_fragment test_library ?tree)"
    using all[rule_format, OF m] by (simp add: tag_of_def)
  moreover have "sublist (tostring test_library ?article) (html_fragment test_library ?tree)"
    using all[rule_format, OF a] by (simp add: tag_of_def)
  moreover have "tostring test_library ?main = ''<main>M</main>''"
    and "tostring test_library ?article = ''<article><h1>Plain</h1>A</article>''"
    by (simp_all add: test_library_def)
  moreover have "html_to_markdown
       (Trafilatura (\<lambda>html url. Some ''Body ![Cover](https://site/a.png)''))
       test_library ''EN-PAGE'' ''https://site/en/story''
     = Inr ''Body ![Cover](https://site/a.png)''"
    using html_to_markdown_fallback[of id test_library "''EN-PAGE''"
      "''https://site/en/story''" ?tree, THEN conjunct2, THEN conjunct2, THEN conjunct2,
      rule_format, of "\<lambda>html url. Some ''Body ![Cover](https://site/a.png)''"
      "''Body ![Cover](https://site/a.png)''"]
    by simp
  ultimately show ?thesis
    by simp
qed

section \<open>Properties of the rewriting\<close>











end
